theory Spec2Isabelle
  imports Complex_Main "HOL-Library.Multiset" "HOL-Library.Sublist"
begin

section \<open>Numbers\<close>

text \<open>
  The benchmark and scoring engine of Magnetpro (\<^verbatim>\<open>services/benchmark.js\<close>, in the
  source tree as the second half of \<^verbatim>\<open>src/services/apify.js\<close>, and
  \<^verbatim>\<open>generateInsights\<close> of \<^verbatim>\<open>routes/analyze.js\<close>) computes with JavaScript numbers:
  the binary64 values of IEEE 754. A finite number is the rational it denotes, and
  every arithmetic operation returns the exact result rounded to the nearest binary64
  value, a tie going to the even significand, and infinity past the largest finite
  value. The sign of zero is not modelled (a zero divisor is \<open>+0\<close>).
\<close>

datatype jsnum = Fin rat | PInf | NInf | NaN

fun sign :: "jsnum \<Rightarrow> rat" where
  "sign (Fin a) = sgn a"
| "sign PInf = 1"
| "sign NInf = - 1"
| "sign NaN = 0"

definition infinity :: "rat \<Rightarrow> jsnum" where
  "infinity s = (if 0 < s then PInf else if s < 0 then NInf else NaN)"

text \<open>
  Rounding to binary64. \<open>bits n\<close> is the length of the binary numeral of \<open>n\<close>, and
  \<open>ilog2 x\<close> the exponent \<open>e\<close> with \<open>2 ^ e \<le> x < 2 ^ (e + 1)\<close> of a positive \<open>x\<close>. A
  value with exponent \<open>e\<close> is rounded to a multiple of \<open>2 ^ (e - 52)\<close>, and a value below
  \<open>2 ^ - 1022\<close> to a multiple of \<open>2 ^ - 1074\<close>.
\<close>

definition pow2 :: "int \<Rightarrow> rat" where
  "pow2 k = power_int 2 k"

function bits :: "int \<Rightarrow> nat" where
  "bits n = (if n \<le> 0 then 0 else Suc (bits (n div 2)))"
  by pat_completeness auto
termination
  by (relation "measure nat") auto

declare bits.simps [simp del]

definition ilog2 :: "rat \<Rightarrow> int" where
  "ilog2 x =
     (let (p, q) = quotient_of x;
          k = int (bits p) - int (bits q)
      in if pow2 k \<le> x then k else k - 1)"

definition round_half_even :: "rat \<Rightarrow> int" where
  "round_half_even m =
     (let n = \<lfloor>m\<rfloor>; r = m - of_int n
      in if r < 1 / 2 then n else if 1 / 2 < r then n + 1 else if even n then n else n + 1)"

definition round64 :: "rat \<Rightarrow> rat" where
  "round64 x =
     (if x = 0 then 0
      else
        let a = \<bar>x\<bar>;
            e = max (ilog2 a) (- 1022);
            u = pow2 (e - 52)
        in sgn x * (of_int (round_half_even (a / u)) * u))"

definition binary64 :: "rat \<Rightarrow> jsnum" where
  "binary64 x =
     (let y = round64 x in if pow2 1024 \<le> \<bar>y\<bar> then infinity (sgn x) else Fin y)"

text \<open>
  The number that a numeric literal, a stored integer or the decimal text of a stored
  \<^verbatim>\<open>DECIMAL\<close> denotes: \<open>0.7\<close> is \<open>num (7 / 10)\<close>.
\<close>

definition num :: "rat \<Rightarrow> jsnum" where
  "num x = binary64 x"

fun js_mul :: "jsnum \<Rightarrow> jsnum \<Rightarrow> jsnum" where
  "js_mul (Fin a) (Fin b) = binary64 (a * b)"
| "js_mul NaN y = NaN"
| "js_mul x NaN = NaN"
| "js_mul x y = infinity (sign x * sign y)"

fun js_div :: "jsnum \<Rightarrow> jsnum \<Rightarrow> jsnum" where
  "js_div (Fin a) (Fin b) = (if b = 0 then infinity (sgn a) else binary64 (a / b))"
| "js_div NaN y = NaN"
| "js_div x NaN = NaN"
| "js_div (Fin a) y = Fin 0"
| "js_div x (Fin b) = infinity (sign x * (if b < 0 then - 1 else 1))"
| "js_div x y = NaN"

fun js_add :: "jsnum \<Rightarrow> jsnum \<Rightarrow> jsnum" where
  "js_add (Fin a) (Fin b) = binary64 (a + b)"
| "js_add NaN y = NaN"
| "js_add x NaN = NaN"
| "js_add (Fin a) y = y"
| "js_add x (Fin b) = x"
| "js_add x y = (if x = y then x else NaN)"

fun js_neg :: "jsnum \<Rightarrow> jsnum" where
  "js_neg (Fin a) = Fin (- a)"
| "js_neg PInf = NInf"
| "js_neg NInf = PInf"
| "js_neg NaN = NaN"

definition js_sub :: "jsnum \<Rightarrow> jsnum \<Rightarrow> jsnum" where
  "js_sub x y = js_add x (js_neg y)"

fun js_lt :: "jsnum \<Rightarrow> jsnum \<Rightarrow> bool" where
  "js_lt (Fin a) (Fin b) = (a < b)"
| "js_lt NaN y = False"
| "js_lt x NaN = False"
| "js_lt NInf y = (y \<noteq> NInf)"
| "js_lt x PInf = (x \<noteq> PInf)"
| "js_lt x y = False"

definition js_ge :: "jsnum \<Rightarrow> jsnum \<Rightarrow> bool" where
  "js_ge x y = (x \<noteq> NaN \<and> y \<noteq> NaN \<and> \<not> js_lt x y)"

fun Math_min :: "jsnum \<Rightarrow> jsnum \<Rightarrow> jsnum" where
  "Math_min (Fin a) (Fin b) = Fin (min a b)"
| "Math_min NaN y = NaN"
| "Math_min x NaN = NaN"
| "Math_min NInf y = NInf"
| "Math_min x NInf = NInf"
| "Math_min PInf y = y"
| "Math_min x PInf = x"

fun Math_max :: "jsnum \<Rightarrow> jsnum \<Rightarrow> jsnum" where
  "Math_max (Fin a) (Fin b) = Fin (max a b)"
| "Math_max NaN y = NaN"
| "Math_max x NaN = NaN"
| "Math_max PInf y = PInf"
| "Math_max x PInf = PInf"
| "Math_max NInf y = y"
| "Math_max x NInf = x"

text \<open>
  \<^verbatim>\<open>Math.round\<close> rounds to the nearest integer, a half towards plus infinity; the
  result is exact.
\<close>

definition round_half_up :: "rat \<Rightarrow> int" where
  "round_half_up x = \<lfloor>x + 1 / 2\<rfloor>"

fun Math_round :: "jsnum \<Rightarrow> jsnum" where
  "Math_round (Fin a) = Fin (of_int (round_half_up a))"
| "Math_round x = x"

text \<open>
  \<^verbatim>\<open>x.toFixed(n)\<close> is kept as the pair of the number and the digit count: no
  property below depends on the characters it prints. A template literal is the list
  of its pieces.
\<close>

datatype fixed = toFixed jsnum nat

datatype piece = Lit string | Num fixed

section \<open>Percentile of a value in a distribution\<close>

text \<open>
  \<^verbatim>\<open>Array.prototype.findIndex\<close>: the index of the first element that satisfies the
  predicate, \<open>-1\<close> when there is none.
\<close>

fun findIndex :: "('a \<Rightarrow> bool) \<Rightarrow> 'a list \<Rightarrow> int" where
  "findIndex P [] = - 1"
| "findIndex P (x # xs) =
     (if P x then 0 else (let i = findIndex P xs in if i = - 1 then - 1 else i + 1))"

text \<open>
  \<^verbatim>\<open>calculatePercentile(value, distribution)\<close>. The value and the samples are finite
  numbers; comparing them is exact. \<^verbatim>\<open>distribution.sort((a, b) => a - b)\<close> sorts the
  array of the caller in place, ascending, and returns that same array; the model
  returns the array as the call leaves it next to the result. \<open>None\<close> is a missing
  distribution (\<^verbatim>\<open>null\<close> or \<^verbatim>\<open>undefined\<close>). The quotient and the product are rounded
  as the machine rounds them.
\<close>

definition calculatePercentile :: "rat \<Rightarrow> rat list option \<Rightarrow> jsnum \<times> rat list option" where
  "calculatePercentile value distribution =
     (case distribution of
        None \<Rightarrow> (Fin 50, None)
      | Some d \<Rightarrow>
          if length d = 0 then (Fin 50, Some d)
          else
            let sorted = sort d;
                index = findIndex (\<lambda>v. v \<ge> value) sorted
            in if index = - 1 then (Fin 100, Some sorted)
               else
                 let percentile =
                       js_mul (js_div (Fin (of_int index)) (Fin (of_nat (length sorted))))
                         (Fin 100)
                 in (Math_round percentile, Some sorted))"

text \<open>
  The reference of the specification: 50 for no samples, 100 when every sample is below
  the value, otherwise the position of the first sample that is at least the value, in
  the ascending order of the samples, over their number, times 100, rounded; the
  arithmetic is that of the numbers of the language.
\<close>

definition first_at_least :: "rat \<Rightarrow> rat list \<Rightarrow> nat" where
  "first_at_least v xs = length (takeWhile (\<lambda>x. x < v) xs)"

definition percent :: "nat \<Rightarrow> nat \<Rightarrow> jsnum" where
  "percent position length' =
     Math_round (js_mul (js_div (Fin (of_nat position)) (Fin (of_nat length'))) (Fin 100))"


definition samples_below :: "rat \<Rightarrow> rat list \<Rightarrow> nat" where
  "samples_below v d = length (filter (\<lambda>x. x < v) d)"

section \<open>Rows and baselines\<close>

text \<open>
  A row of the table \<^verbatim>\<open>profiles\<close> (\<^verbatim>\<open>database.sql\<close>), with the columns the engine
  reads, each with the value it stores: an integer for an \<^verbatim>\<open>INTEGER\<close>, a decimal
  fraction for a \<^verbatim>\<open>DECIMAL\<close>. \<^verbatim>\<open>username\<close> is \<^verbatim>\<open>NOT NULL\<close>. \<^verbatim>\<open>followers\<close> and
  \<^verbatim>\<open>engagement_rate\<close> are written as numbers by every insert of the program and read
  without a guard. The columns the program guards with \<^verbatim>\<open>|| 0\<close> and the text columns
  may be \<^verbatim>\<open>NULL\<close> (\<open>None\<close>). A timestamp is a number of seconds.
\<close>

record profile =
  username :: string
  followers :: int
  engagement_rate :: rat
  post_frequency :: "rat option"
  reel_percentage :: "int option"
  industry :: "string option"
  location_city :: "string option"
  location_state :: "string option"
  location_country :: "string option"
  last_scraped :: int

text \<open>
  An average of a baseline is a number, in the objects that \<^verbatim>\<open>calculateBenchmarks\<close> and
  \<^verbatim>\<open>getGlobalBenchmarks\<close> build, or the decimal text of a \<^verbatim>\<open>DECIMAL\<close> column, in a row
  read from the table \<^verbatim>\<open>benchmarks\<close>. Arithmetic converts the text to the number it
  denotes.
\<close>

datatype average = AsNumber jsnum | AsText rat

fun to_number :: "average \<Rightarrow> jsnum" where
  "to_number (AsNumber x) = x"
| "to_number (AsText r) = num r"

text \<open>
  The baseline object the scoring reads. A property that an object does not have is
  \<open>None\<close>. The properties \<^verbatim>\<open>industry\<close>, \<^verbatim>\<open>location_type\<close> and \<^verbatim>\<open>location_value\<close> of a
  computed baseline are \<open>segment\<close>.
\<close>

record benchmarks =
  segment :: "(string \<times> string \<times> string option) option"
  avg_followers :: average
  avg_engagement :: average
  avg_post_frequency :: average
  avg_reel_percentage :: "average option"
  follower_distribution :: "rat list option"
  engagement_distribution :: "rat list option"
  sample_size :: "nat option"

section \<open>Overall score\<close>

text \<open>
  \<^verbatim>\<open>calculateOverallScore(profile, benchmarks)\<close>. The division converts its operands to
  numbers: a stored value to the number it denotes, \<^verbatim>\<open>NULL\<close> to 0.
\<close>

definition or_zero :: "('a::zero) option \<Rightarrow> 'a" where
  "or_zero x = (case x of None \<Rightarrow> 0 | Some a \<Rightarrow> a)"

definition calculateOverallScore :: "profile \<Rightarrow> benchmarks \<Rightarrow> jsnum" where
  "calculateOverallScore p b =
     (let followerScore =
            Math_min (Fin 100)
              (js_mul (js_div (num (of_int (followers p))) (to_number (avg_followers b)))
                 (Fin 100));
          engagementScore =
            Math_min (Fin 100)
              (js_mul (js_div (num (engagement_rate p)) (to_number (avg_engagement b)))
                 (Fin 100));
          postScore =
            Math_min (Fin 100)
              (js_mul
                 (js_div (num (or_zero (post_frequency p)))
                    (to_number (avg_post_frequency b)))
                 (Fin 100));
          overallScore =
            Math_round
              (js_add
                 (js_add (js_mul followerScore (num (3 / 10)))
                    (js_mul engagementScore (num (5 / 10))))
                 (js_mul postScore (num (2 / 10))))
      in Math_min (Fin 100) (Math_max (Fin 0) overallScore))"



text \<open>
  For the analysis of the calculation: a value that is not \<open>NaN\<close> and is at most a
  bound.
\<close>

definition below :: "rat \<Rightarrow> jsnum \<Rightarrow> bool" where
  "below B z = (case z of Fin y \<Rightarrow> y \<le> B | NInf \<Rightarrow> True | PInf \<Rightarrow> False | NaN \<Rightarrow> False)"


section \<open>Baselines: the fallback table and the recomputation\<close>

text \<open>
  \<^verbatim>\<open>getGlobalBenchmarks(industry)\<close> is \<^verbatim>\<open>benchmarks[industry] || benchmarks['default']\<close>
  on an object literal. The lookup finds the seven rows of the literal, and, for a key
  that is none of them, what the literal inherits from \<^verbatim>\<open>Object.prototype\<close>: each of
  these members is a function or an object, so \<^verbatim>\<open>||\<close> keeps it.
\<close>

datatype baseline = Row benchmarks | Inherited string

definition global_row :: "rat \<Rightarrow> rat \<Rightarrow> rat \<Rightarrow> benchmarks" where
  "global_row f e pf =
     \<lparr>segment = None, avg_followers = AsNumber (num f), avg_engagement = AsNumber (num e),
      avg_post_frequency = AsNumber (num pf),
      avg_reel_percentage = None, follower_distribution = None,
      engagement_distribution = None, sample_size = None\<rparr>"

definition default_row :: benchmarks where
  "default_row = global_row 15000 3 5"

definition global_table :: "(string \<times> benchmarks) list" where
  "global_table =
     [(''fitness'', global_row 15000 (35 / 10) (52 / 10)),
      (''beauty'', global_row 25000 (42 / 10) (75 / 10)),
      (''health'', global_row 18000 (38 / 10) (48 / 10)),
      (''fashion'', global_row 35000 (32 / 10) (92 / 10)),
      (''food'', global_row 20000 (45 / 10) 8),
      (''business'', global_row 12000 (25 / 10) 4),
      (''default'', default_row)]"

definition Object_prototype :: "string list" where
  "Object_prototype =
     [''constructor'', ''__defineGetter__'', ''__defineSetter__'', ''hasOwnProperty'',
      ''__lookupGetter__'', ''__lookupSetter__'', ''isPrototypeOf'',
      ''propertyIsEnumerable'', ''toString'', ''valueOf'', ''__proto__'',
      ''toLocaleString'']"

definition lookup :: "string \<Rightarrow> baseline option" where
  "lookup key =
     (case map_of global_table key of
        Some r \<Rightarrow> Some (Row r)
      | None \<Rightarrow> if key \<in> set Object_prototype then Some (Inherited key) else None)"

definition getGlobalBenchmarks :: "string \<Rightarrow> baseline" where
  "getGlobalBenchmarks industry' =
     (case lookup industry' of Some v \<Rightarrow> v | None \<Rightarrow> Row default_row)"

text \<open>
  The conditions of SQL have three values: a comparison with \<^verbatim>\<open>NULL\<close> is unknown
  (\<open>None\<close>), and \<^verbatim>\<open>WHERE\<close> keeps the rows whose condition is true.
\<close>

definition sql_eq :: "'a option \<Rightarrow> 'a option \<Rightarrow> bool option" where
  "sql_eq a b = (case (a, b) of (Some x, Some y) \<Rightarrow> Some (x = y) | _ \<Rightarrow> None)"

definition sql_gt :: "('a::linorder) option \<Rightarrow> 'a option \<Rightarrow> bool option" where
  "sql_gt a b = (case (a, b) of (Some x, Some y) \<Rightarrow> Some (x > y) | _ \<Rightarrow> None)"

fun sql_and :: "bool option \<Rightarrow> bool option \<Rightarrow> bool option" where
  "sql_and (Some False) q = Some False"
| "sql_and p (Some False) = Some False"
| "sql_and (Some True) (Some True) = Some True"
| "sql_and p q = None"

fun sql_or :: "bool option \<Rightarrow> bool option \<Rightarrow> bool option" where
  "sql_or (Some True) q = Some True"
| "sql_or p (Some True) = Some True"
| "sql_or (Some False) (Some False) = Some False"
| "sql_or p q = None"

definition sql_where :: "('r \<Rightarrow> bool option) \<Rightarrow> 'r list \<Rightarrow> 'r list" where
  "sql_where cond rows = filter (\<lambda>r. cond r = Some True) rows"

datatype error = Error string | TypeError string

text \<open>
  \<^verbatim>\<open>calculateBenchmarks(industry, locationCity, locationState, locationCountry)\<close> reads
  the table \<^verbatim>\<open>profiles\<close> at the time \<open>now\<close> and, when it found rows, writes one row of
  the table \<^verbatim>\<open>benchmarks\<close>. The store is not part of the source tree: what it answers
  to the write is the parameter \<open>store\<close>, \<open>None\<close> when it accepts the row and the error
  it raises otherwise, which the function throws again. The parameters of the write
  are returned next to the result (\<open>None\<close> when nothing is written). The sums and the
  quotients are rounded as the machine rounds them. The samples of the distributions
  are the numbers the rows hold: an \<^verbatim>\<open>INTEGER\<close> exactly, a \<^verbatim>\<open>DECIMAL(5,2)\<close> rounded to
  the nearest number, which is finite.
\<close>

record upsert =
  u_industry :: string
  u_location_type :: string
  u_location_value :: "string option"
  u_avg_followers :: fixed
  u_avg_engagement :: fixed
  u_avg_post_frequency :: fixed
  u_avg_reel_percentage :: fixed
  u_follower_distribution :: "rat list"
  u_engagement_distribution :: "rat list"
  u_sample_size :: nat

definition days :: "int \<Rightarrow> int" where
  "days n = n * 86400"

definition calculateBenchmarks ::
  "(upsert \<Rightarrow> error option) \<Rightarrow> int \<Rightarrow> profile list \<Rightarrow> string \<Rightarrow> string option
     \<Rightarrow> string option \<Rightarrow> string option \<Rightarrow> error + baseline \<times> upsert option" where
  "calculateBenchmarks store now profiles industry' locationCity locationState
       locationCountry =
     (let rows =
            sql_where
              (\<lambda>p. sql_and (sql_eq (industry p) (Some industry'))
                     (sql_and
                        (sql_or (sql_eq (location_city p) locationCity)
                           (sql_or (sql_eq (location_state p) locationState)
                              (sql_eq (location_country p) locationCountry)))
                        (Some (last_scraped p > now - days 30))))
              profiles
      in if length rows = 0 then Inr (getGlobalBenchmarks industry', None)
         else
           let data = rows;
               avgFollowers =
                 js_div (fold (\<lambda>p sum. js_add sum (num (of_int (followers p)))) data (Fin 0))
                   (num (of_nat (length data)));
               avgEngagement =
                 js_div (fold (\<lambda>p sum. js_add sum (num (engagement_rate p))) data (Fin 0))
                   (num (of_nat (length data)));
               avgPostFreq =
                 js_div
                   (fold (\<lambda>p sum. js_add sum (num (or_zero (post_frequency p)))) data (Fin 0))
                   (num (of_nat (length data)));
               avgReels =
                 js_div
                   (fold (\<lambda>p sum. js_add sum (num (of_int (or_zero (reel_percentage p)))))
                      data (Fin 0))
                   (num (of_nat (length data)));
               followerDistribution = map (\<lambda>p. of_int (followers p)) data;
               engagementDistribution = map (\<lambda>p. round64 (engagement_rate p)) data;
               write =
                 \<lparr>u_industry = industry', u_location_type = ''city'',
                  u_location_value = locationCity,
                  u_avg_followers = toFixed avgFollowers 2,
                  u_avg_engagement = toFixed avgEngagement 2,
                  u_avg_post_frequency = toFixed avgPostFreq 2,
                  u_avg_reel_percentage = toFixed avgReels 2,
                  u_follower_distribution = followerDistribution,
                  u_engagement_distribution = engagementDistribution,
                  u_sample_size = length data\<rparr>
           in case store write of
                Some e \<Rightarrow> Inl e
              | None \<Rightarrow>
                  Inr (Row \<lparr>segment = Some (industry', ''city'', locationCity),
                            avg_followers = AsNumber avgFollowers,
                            avg_engagement = AsNumber avgEngagement,
                            avg_post_frequency = AsNumber avgPostFreq,
                            avg_reel_percentage = Some (AsNumber avgReels),
                            follower_distribution = Some followerDistribution,
                            engagement_distribution = Some engagementDistribution,
                            sample_size = Some (length data)\<rparr>,
                       Some write))"

text \<open>
  A row of the table \<^verbatim>\<open>benchmarks\<close>: its key, the time of its last update, and the
  columns the scoring reads, as a baseline object. Its averages are \<^verbatim>\<open>DECIMAL\<close>
  columns.
\<close>

record cached =
  cached_industry :: string
  cached_location_type :: "string option"
  cached_location_value :: "string option"
  updated_at :: int
  cached_baseline :: benchmarks

definition hours :: "int \<Rightarrow> int" where
  "hours n = n * 3600"

text \<open>
  \<^verbatim>\<open>getBenchmarks(industry, locationCity, locationState, locationCountry)\<close> resolves the
  baseline of a segment: a row of the cache updated within the last 24 hours
  (\<^verbatim>\<open>LIMIT 1\<close>, the first row found), and otherwise the recomputation.
\<close>

definition getBenchmarks ::
  "(upsert \<Rightarrow> error option) \<Rightarrow> int \<Rightarrow> cached list \<Rightarrow> profile list \<Rightarrow> string
     \<Rightarrow> string option \<Rightarrow> string option \<Rightarrow> string option
     \<Rightarrow> error + baseline \<times> upsert option" where
  "getBenchmarks store now benchmarks_table profiles industry' locationCity locationState
       locationCountry =
     (case sql_where
             (\<lambda>r. sql_and (sql_eq (Some (cached_industry r)) (Some industry'))
                    (sql_and (sql_eq (cached_location_type r) (Some ''city''))
                       (sql_and (sql_eq (cached_location_value r) locationCity)
                          (Some (updated_at r > now - hours 24)))))
             benchmarks_table of
        row # _ \<Rightarrow> Inr (Row (cached_baseline row), None)
      | [] \<Rightarrow>
          calculateBenchmarks store now profiles industry' locationCity locationState
            locationCountry)"

text \<open>
  The peer corpus of a segment, as the specification describes it: the rows of the
  industry that match the city, the state or the country of the segment and were
  scraped within the last 30 days.
\<close>

definition peer ::
  "int \<Rightarrow> string \<Rightarrow> string option \<Rightarrow> string option \<Rightarrow> string option \<Rightarrow> profile \<Rightarrow> bool" where
  "peer now industry' locationCity locationState locationCountry p =
     (industry p = Some industry'
      \<and> ((locationCity \<noteq> None \<and> location_city p = locationCity)
         \<or> (locationState \<noteq> None \<and> location_state p = locationState)
         \<or> (locationCountry \<noteq> None \<and> location_country p = locationCountry))
      \<and> last_scraped p > now - days 30)"

text \<open>A row of the cache that answers a request for the segment: a cache hit.\<close>

definition fresh :: "int \<Rightarrow> string \<Rightarrow> string option \<Rightarrow> cached \<Rightarrow> bool" where
  "fresh now industry' locationCity r =
     (cached_industry r = industry' \<and> cached_location_type r = Some ''city''
      \<and> locationCity \<noteq> None \<and> cached_location_value r = locationCity
      \<and> updated_at r > now - hours 24)"

section \<open>Rankings\<close>

text \<open>
  \<^verbatim>\<open>calculateRankings\<close> reads counts from the store. The module \<^verbatim>\<open>config/database\<close>
  that runs the queries is not part of the source tree, so how it delivers a
  \<^verbatim>\<open>COUNT(*)\<close> (a \<^verbatim>\<open>bigint\<close>) to the program is a parameter of the model: as the
  decimal text of the count, which is what the PostgreSQL client for Node does unless
  it is configured otherwise, or as a number. A decimal text is never the empty string,
  so it is truthy whatever its value; a number is truthy when it is not zero.
\<close>

datatype bigint_mode = BigintText | BigintNumber

datatype cell = Text nat | Number nat

definition bigint :: "bigint_mode \<Rightarrow> nat \<Rightarrow> cell" where
  "bigint driver n = (case driver of BigintText \<Rightarrow> Text n | BigintNumber \<Rightarrow> Number n)"

fun truthy :: "cell \<Rightarrow> bool" where
  "truthy (Text n) = True"
| "truthy (Number n) = (n \<noteq> 0)"

definition or_else :: "cell \<Rightarrow> nat \<Rightarrow> cell" where
  "or_else x fallback = (if truthy x then x else Number fallback)"

fun parseInt :: "cell \<Rightarrow> nat" where
  "parseInt (Text n) = n"
| "parseInt (Number n) = n"

text \<open>
  One scope of the result. The third property is \<^verbatim>\<open>name\<close> for the city and the state
  and \<^verbatim>\<open>country\<close> for the nation.
\<close>

record ranking =
  rank :: nat
  total' :: nat
  name :: "string option"

record rankings =
  city :: ranking
  state :: ranking
  national :: ranking

text \<open>
  The two conditions of the six counting queries, with the location column as a
  parameter: the queries of the three scopes differ in nothing else.
\<close>

definition total_condition ::
  "(profile \<Rightarrow> string option) \<Rightarrow> string option \<Rightarrow> string \<Rightarrow> profile \<Rightarrow> bool option" where
  "total_condition column location industry' p =
     sql_and (sql_eq (column p) location) (sql_eq (industry p) (Some industry'))"

definition rank_condition ::
  "(profile \<Rightarrow> string option) \<Rightarrow> string option \<Rightarrow> string \<Rightarrow> int \<Rightarrow> rat \<Rightarrow> profile
     \<Rightarrow> bool option" where
  "rank_condition column location industry' followers' engagement_rate' p =
     sql_and (sql_eq (column p) location)
       (sql_and (sql_eq (industry p) (Some industry'))
          (sql_or (sql_gt (Some (followers p)) (Some followers'))
             (sql_and (sql_eq (Some (followers p)) (Some followers'))
                (sql_gt (Some (engagement_rate p)) (Some engagement_rate')))))"

definition calculateRankings ::
  "bigint_mode \<Rightarrow> profile list \<Rightarrow> string \<Rightarrow> string \<Rightarrow> string option \<Rightarrow> string option
     \<Rightarrow> string option \<Rightarrow> error + rankings" where
  "calculateRankings driver profiles username' industry' locationCity locationState
       locationCountry =
     (case filter (\<lambda>p. username p = username') profiles of
        [] \<Rightarrow> Inl (Error ''Profile not found in database'')
      | row # _ \<Rightarrow>
          let followers' = followers row;
              engagement_rate' = engagement_rate row;
              cityRank =
                bigint driver
                  (length (sql_where
                     (rank_condition location_city locationCity industry' followers'
                        engagement_rate') profiles) + 1);
              cityTotal =
                bigint driver
                  (length (sql_where (total_condition location_city locationCity industry')
                     profiles));
              stateRank =
                bigint driver
                  (length (sql_where
                     (rank_condition location_state locationState industry' followers'
                        engagement_rate') profiles) + 1);
              stateTotal =
                bigint driver
                  (length (sql_where (total_condition location_state locationState industry')
                     profiles));
              nationalRank =
                bigint driver
                  (length (sql_where
                     (rank_condition location_country locationCountry industry' followers'
                        engagement_rate') profiles) + 1);
              nationalTotal =
                bigint driver
                  (length (sql_where
                     (total_condition location_country locationCountry industry') profiles))
          in Inr \<lparr>city = \<lparr>rank = parseInt cityRank,
                            total' = parseInt (or_else cityTotal 1000),
                            name = locationCity\<rparr>,
                    state = \<lparr>rank = parseInt stateRank,
                             total' = parseInt (or_else stateTotal 5000),
                             name = locationState\<rparr>,
                    national = \<lparr>rank = parseInt nationalRank,
                                total' = parseInt (or_else nationalTotal 50000),
                                name = locationCountry\<rparr>\<rparr>)"

text \<open>
  The specification's reading of a scope: its members match the industry and the
  location of the scope, and a member dominates the subject when it has more followers,
  or as many and a higher engagement rate.
\<close>

definition in_scope ::
  "(profile \<Rightarrow> string option) \<Rightarrow> string option \<Rightarrow> string \<Rightarrow> profile \<Rightarrow> bool" where
  "in_scope column location industry' p =
     (location \<noteq> None \<and> column p = location \<and> industry p = Some industry')"

definition dominates :: "profile \<Rightarrow> int \<Rightarrow> rat \<Rightarrow> bool" where
  "dominates p f e = (followers p > f \<or> (followers p = f \<and> engagement_rate p > e))"

definition scope_total ::
  "(profile \<Rightarrow> string option) \<Rightarrow> string option \<Rightarrow> string \<Rightarrow> profile list \<Rightarrow> nat" where
  "scope_total column location industry' profiles =
     length (filter (in_scope column location industry') profiles)"

definition scope_rank ::
  "(profile \<Rightarrow> string option) \<Rightarrow> string option \<Rightarrow> string \<Rightarrow> int \<Rightarrow> rat \<Rightarrow> profile list
     \<Rightarrow> nat" where
  "scope_rank column location industry' f e profiles =
     1 + length (filter (\<lambda>p. in_scope column location industry' p \<and> dominates p f e) profiles)"

text \<open>Rows for the examples: a member of a segment, and a small corpus.\<close>

definition member ::
  "string \<Rightarrow> int \<Rightarrow> rat \<Rightarrow> string \<Rightarrow> string option \<Rightarrow> string option \<Rightarrow> string option
     \<Rightarrow> profile" where
  "member u f e i c s n =
     \<lparr>username = u, followers = f, engagement_rate = e, post_frequency = None,
      reel_percentage = None, industry = Some i, location_city = c, location_state = s,
      location_country = n, last_scraped = 0\<rparr>"

definition example_corpus :: "profile list" where
  "example_corpus =
     [member ''ann'' 100 2 ''fitness'' (Some ''Austin'') (Some ''TX'') (Some ''US''),
      member ''bob'' 100 2 ''fitness'' (Some ''Austin'') (Some ''TX'') (Some ''US''),
      member ''cy'' 200 1 ''fitness'' (Some ''Austin'') (Some ''TX'') (Some ''US''),
      member ''dee'' 100 3 ''fitness'' (Some ''Dallas'') (Some ''TX'') (Some ''US''),
      member ''eve'' 900 9 ''beauty'' (Some ''Austin'') (Some ''TX'') (Some ''US'')]"

section \<open>Insights\<close>

datatype insight_type = Success | Warning | Info

datatype insight_category = Engagement | Frequency | Content | Overall

record insight =
  type :: insight_type
  category :: insight_category
  message :: "piece list"
  recommendation :: "piece list"

text \<open>
  \<^verbatim>\<open>generateInsights(profile, benchmarks, score)\<close>. Each \<^verbatim>\<open>insights.push\<close> appends to the
  list built so far. \<^verbatim>\<open>parseFloat\<close> of a stored decimal is the number it denotes; a
  \<^verbatim>\<open>NULL\<close> post frequency is replaced by 0 before it is parsed, and a \<^verbatim>\<open>NULL\<close> reel
  percentage compares as 0. The products with \<open>0.7\<close> and \<open>1.3\<close> convert an average to a
  number. \<^verbatim>\<open>benchmarks.avg_post_frequency.toFixed\<close> is a method of numbers only: on an
  average that is text the call throws a \<^verbatim>\<open>TypeError\<close>, and the insights pushed
  before it are lost with the call.
\<close>

definition generateInsights :: "profile \<Rightarrow> benchmarks \<Rightarrow> jsnum \<Rightarrow> error + insight list" where
  "generateInsights p b score =
     (let insights0 = [];
          engagementRate = num (engagement_rate p);
          insights1 =
            (if js_lt engagementRate (js_mul (to_number (avg_engagement b)) (num (7 / 10))) then
               insights0 @
               [\<lparr>type = Warning, category = Engagement,
                 message =
                   [Lit ''Your engagement rate ('', Num (toFixed engagementRate 1),
                    Lit ''%) is below average for your industry''],
                 recommendation =
                   [Lit ''Add CTAs to every post and ask questions to boost comments by 40-60%'']\<rparr>]
             else if js_lt (js_mul (to_number (avg_engagement b)) (num (13 / 10))) engagementRate
             then
               insights0 @
               [\<lparr>type = Success, category = Engagement,
                 message =
                   [Lit ''Excellent engagement rate! You're '',
                    Num (toFixed
                           (js_mul
                              (js_sub (js_div engagementRate (to_number (avg_engagement b)))
                                 (Fin 1))
                              (Fin 100)) 0),
                    Lit ''% above average''],
                 recommendation =
                   [Lit ''Keep doing what you are doing and consider sharing your strategy'']\<rparr>]
             else insights0);
          postFreq = num (or_zero (post_frequency p));
          pushed =
            (if js_lt postFreq (js_mul (to_number (avg_post_frequency b)) (num (7 / 10))) then
               (case avg_post_frequency b of
                  AsText t \<Rightarrow>
                    Inl (TypeError ''benchmarks.avg_post_frequency.toFixed is not a function'')
                | AsNumber a \<Rightarrow>
                    Inr (insights1 @
                      [\<lparr>type = Warning, category = Frequency,
                        message =
                          [Lit ''You're posting less frequently than competitors ('',
                           Num (toFixed postFreq 1), Lit ''/week vs '',
                           Num (toFixed a 1), Lit ''/week)''],
                        recommendation =
                          [Lit ''Increase posting frequency by 2-3 posts per week to reach '',
                           Num (toFixed a 0), Lit '' posts/week'']\<rparr>]))
             else Inr insights1)
      in case pushed of
           Inl e \<Rightarrow> Inl e
         | Inr insights2 \<Rightarrow>
             let insights3 =
                   (if or_zero (reel_percentage p) < 30 then
                      insights2 @
                      [\<lparr>type = Info, category = Content,
                        message = [Lit ''Reels make up less than 30% of your content''],
                        recommendation =
                          [Lit ''Reels typically get 3.2x more engagement - aim for 40-60% Reels'']\<rparr>]
                    else insights2);
                 insights4 =
                   (if js_ge score (Fin 85) then
                      insights3 @
                      [\<lparr>type = Success, category = Overall,
                        message =
                          [Lit ''You are crushing it! Top-tier performance in your niche''],
                        recommendation =
                          [Lit ''Focus on maintaining consistency and consider monetization opportunities'']\<rparr>]
                    else if js_lt score (Fin 60) then
                      insights3 @
                      [\<lparr>type = Warning, category = Overall,
                        message = [Lit ''Your competitors are outpacing you''],
                        recommendation =
                          [Lit ''Focus on engagement, post frequency, and leveraging trending content'']\<rparr>]
                    else insights3)
             in Inr insights4)"

text \<open>The conditions of the four rules, as the code evaluates them.\<close>

definition engagement_low :: "profile \<Rightarrow> benchmarks \<Rightarrow> bool" where
  "engagement_low p b =
     js_lt (num (engagement_rate p)) (js_mul (to_number (avg_engagement b)) (num (7 / 10)))"

definition engagement_high :: "profile \<Rightarrow> benchmarks \<Rightarrow> bool" where
  "engagement_high p b =
     js_lt (js_mul (to_number (avg_engagement b)) (num (13 / 10))) (num (engagement_rate p))"

definition frequency_low :: "profile \<Rightarrow> benchmarks \<Rightarrow> bool" where
  "frequency_low p b =
     js_lt (num (or_zero (post_frequency p)))
       (js_mul (to_number (avg_post_frequency b)) (num (7 / 10)))"

definition reels_low :: "profile \<Rightarrow> bool" where
  "reels_low p = (or_zero (reel_percentage p) < 30)"

definition score_high :: "jsnum \<Rightarrow> bool" where
  "score_high score = js_ge score (Fin 85)"

definition score_low :: "jsnum \<Rightarrow> bool" where
  "score_low score = js_lt score (Fin 60)"

definition is_text :: "average \<Rightarrow> bool" where
  "is_text a = (case a of AsText t \<Rightarrow> True | AsNumber x \<Rightarrow> False)"

section \<open>Properties of the rounding\<close>

lemma pow2_pos [simp]: "0 < pow2 k"
  by (simp add: pow2_def)

lemma pow2_add: "pow2 (a + b) = pow2 a * pow2 b"
  by (simp add: pow2_def power_int_add)

lemma pow2_mono: "a \<le> b \<Longrightarrow> pow2 a \<le> pow2 b"
  by (simp add: pow2_def power_int_increasing)

lemma pow2_strict_mono: "a < b \<Longrightarrow> pow2 a < pow2 b"
  by (simp add: pow2_def power_int_strict_increasing)

lemma pow2_less_D: "pow2 a < pow2 b \<Longrightarrow> a < b"
  using pow2_mono[of b a] by (cases "a < b") auto

lemma pow2_nat: "pow2 (int n) = 2 ^ n"
  by (simp add: pow2_def)

lemma pow2_diff_nat: "pow2 (int a - int b) = 2 ^ a / 2 ^ b"
proof -
  have "pow2 (int a - int b) * pow2 (int b) = pow2 (int a)"
    by (simp flip: pow2_add)
  then show ?thesis by (simp add: pow2_nat field_simps)
qed

lemma bits_bounds: "0 < n \<Longrightarrow> 2 ^ (bits n - 1) \<le> n \<and> n < 2 ^ bits n"
proof (induction n rule: bits.induct)
  case (1 n)
  show ?case
  proof (cases "n div 2 = 0")
    case True
    with 1(2) have n1: "n = 1" by presburger
    have "bits 1 = Suc 0"
      by (simp add: bits.simps[of 1] bits.simps[of 0])
    with n1 show ?thesis by simp
  next
    case False
    with 1(2) have pos: "0 < n div 2" by presburger
    from 1(2) have "\<not> n \<le> 0" by simp
    from 1(1)[OF this pos] have ih: "2 ^ (bits (n div 2) - 1) \<le> n div 2" "n div 2 < 2 ^ bits (n div 2)"
      by simp_all
    have b: "bits n = Suc (bits (n div 2))" using 1(2) by (simp add: bits.simps[of n])
    have bpos: "0 < bits (n div 2)" using pos by (simp add: bits.simps[of "n div 2"])
    then have "(2::int) ^ bits (n div 2) = 2 * 2 ^ (bits (n div 2) - 1)"
      by (cases "bits (n div 2)") simp_all
    with ih(1) have lo: "(2::int) ^ bits (n div 2) \<le> n" by presburger
    from ih(2) have hi: "n < 2 * 2 ^ bits (n div 2)" by presburger
    from lo hi b show ?thesis by simp
  qed
qed

lemma bits_pos: "0 < n \<Longrightarrow> 0 < bits n"
  by (simp add: bits.simps[of n])

lemma ilog2_bounds:
  assumes "0 < x"
  shows "pow2 (ilog2 x) \<le> x \<and> x < pow2 (ilog2 x + 1)"
proof -
  obtain p q where pq: "quotient_of x = (p, q)" by (cases "quotient_of x")
  then have q: "0 < q" and x: "x = of_int p / of_int q"
    by (simp_all add: quotient_of_denom_pos quotient_of_div)
  with assms have p: "0 < p" by (simp add: zero_less_divide_iff)
  let ?bp = "bits p" and ?bq = "bits q"
  let ?k = "int ?bp - int ?bq"
  from bits_bounds[OF p] have p1: "(2::rat) ^ (?bp - 1) \<le> of_int p" and p2: "of_int p < (2::rat) ^ ?bp"
    by (metis of_int_le_iff of_int_numeral of_int_power, metis of_int_less_iff of_int_numeral of_int_power)
  from bits_bounds[OF q] have q1: "(2::rat) ^ (?bq - 1) \<le> of_int q" and q2: "of_int q < (2::rat) ^ ?bq"
    by (metis of_int_le_iff of_int_numeral of_int_power, metis of_int_less_iff of_int_numeral of_int_power)
  have qpos: "0 < (of_int q :: rat)" using q by simp
  have bqpos: "0 < ?bq" using q by (rule bits_pos)
  have bppos: "0 < ?bp" using p by (rule bits_pos)
  have hi: "x < pow2 (?k + 1)"
  proof -
    have "pow2 (?k + 1) = 2 ^ ?bp / 2 ^ (?bq - 1)"
      using bqpos pow2_diff_nat[of ?bp "?bq - 1"] by (simp add: of_nat_diff algebra_simps)
    moreover have "of_int p / of_int q < (2::rat) ^ ?bp / 2 ^ (?bq - 1)"
      using p2 q1 qpos p by (intro frac_less) simp_all
    ultimately show ?thesis using x by simp
  qed
  have lo: "pow2 (?k - 1) < x"
  proof -
    have "pow2 (?k - 1) = 2 ^ (?bp - 1) / 2 ^ ?bq"
      using bppos pow2_diff_nat[of "?bp - 1" ?bq] by (simp add: of_nat_diff algebra_simps)
    moreover have "(2::rat) ^ (?bp - 1) / 2 ^ ?bq < of_int p / of_int q"
      using p1 q2 qpos by (intro frac_less2) simp_all
    ultimately show ?thesis using x by simp
  qed
  show ?thesis
  proof (cases "pow2 ?k \<le> x")
    case True
    then have "ilog2 x = ?k" by (simp add: ilog2_def pq)
    with True hi show ?thesis by simp
  next
    case False
    then have "ilog2 x = ?k - 1" by (simp add: ilog2_def pq)
    with False lo show ?thesis by simp
  qed
qed

lemma ilog2_unique:
  assumes "pow2 e \<le> x" "x < pow2 (e + 1)"
  shows "ilog2 x = e"
proof -
  have "0 < x" using assms(1) pow2_pos[of e] by linarith
  from ilog2_bounds[OF this] have b: "pow2 (ilog2 x) \<le> x" "x < pow2 (ilog2 x + 1)" by simp_all
  from b(1) assms(2) have "pow2 (ilog2 x) < pow2 (e + 1)" by linarith
  then have "ilog2 x < e + 1" by (rule pow2_less_D)
  moreover from assms(1) b(2) have "pow2 e < pow2 (ilog2 x + 1)" by linarith
  then have "e < ilog2 x + 1" by (rule pow2_less_D)
  ultimately show ?thesis by simp
qed

lemma pow2_le_D: "pow2 a \<le> pow2 b \<Longrightarrow> a \<le> b"
  using pow2_strict_mono[of b a] by (cases "a \<le> b") auto

lemma pow2_not_le_0 [simp]: "\<not> pow2 k \<le> 0"
  using pow2_pos[of k] by (simp only: not_le)

lemma pow2_neq_0 [simp]: "pow2 k \<noteq> 0"
  by (simp add: pow2_def)

lemma round_half_even_near:
  assumes "\<bar>m - of_int n\<bar> < 1 / 2"
  shows "round_half_even m = n"
proof -
  from assms have "m - of_int n < 1 / 2 \<and> - (m - of_int n) < 1 / 2"
    by (simp only: abs_less_iff)
  then have up: "m - of_int n < 1 / 2" and dn: "of_int n - m < 1 / 2"
    by linarith+
  show ?thesis
  proof (cases "of_int n \<le> m")
  case True
  have "\<lfloor>m\<rfloor> = n"
  proof (rule floor_unique)
    show "of_int n \<le> m" by fact
    show "m < of_int n + 1" using up by linarith
  qed
  with up True show ?thesis by (simp add: round_half_even_def Let_def)
next
  case False
  have f: "\<lfloor>m\<rfloor> = n - 1"
  proof (rule floor_unique)
    show "of_int (n - 1) \<le> m" using dn by simp
    show "m < of_int (n - 1) + 1" using False by simp
  qed
  from dn have "1 / 2 < m - of_int (n - 1)" by simp
  with f show ?thesis by (simp add: round_half_even_def Let_def)
qed
qed

lemma round_half_even_of_int [simp]: "round_half_even (of_int n) = n"
  by (rule round_half_even_near) simp

lemma round_half_even_le:
  assumes "m \<le> of_int K"
  shows "round_half_even m \<le> K"
proof (cases "m = of_int K")
  case True
  then show ?thesis by simp
next
  case False
  with assms have "m < of_int K" by simp
  then have "\<lfloor>m\<rfloor> < K" by (simp add: floor_less_iff)
  then show ?thesis by (simp add: round_half_even_def Let_def)
qed

lemma round_half_even_ge:
  assumes "of_int K \<le> m"
  shows "K \<le> round_half_even m"
proof -
  from assms have "K \<le> \<lfloor>m\<rfloor>" by (simp add: le_floor_iff)
  then show ?thesis by (simp add: round_half_even_def Let_def)
qed

lemma round64_0 [simp]: "round64 0 = 0"
  by (simp add: round64_def)

lemma round64_minus: "round64 (- x) = - round64 x"
  by (simp add: round64_def Let_def)

lemma round64_nonneg: "0 \<le> x \<Longrightarrow> 0 \<le> round64 x"
proof -
  assume x: "0 \<le> x"
  have "0 \<le> round_half_even (\<bar>x\<bar> / pow2 (max (ilog2 \<bar>x\<bar>) (- 1022) - 52))"
    by (rule round_half_even_ge) (simp add: less_imp_le)
  with x show ?thesis
    by (simp add: round64_def Let_def sgn_if less_imp_le)
qed

lemma round64_nonpos: "x \<le> 0 \<Longrightarrow> round64 x \<le> 0"
  using round64_nonneg[of "- x"] by (simp add: round64_minus)

lemma round64_certificate:
  assumes "pow2 e \<le> x" "x < pow2 (e + 1)" "- 1022 \<le> e"
    and "\<bar>x / pow2 (e - 52) - of_int n\<bar> < 1 / 2"
  shows "round64 x = of_int n * pow2 (e - 52)"
proof -
  have pos: "0 < x" using assms(1) pow2_pos[of e] by linarith
  have "ilog2 x = e" using assms(1,2) by (rule ilog2_unique)
  with assms(3) have "max (ilog2 \<bar>x\<bar>) (- 1022) = e" using pos by simp
  with pos assms(4) show ?thesis
    by (simp add: round64_def Let_def round_half_even_near)
qed

lemma round64_upper:
  assumes "0 \<le> x" "x \<le> pow2 k" "- 1022 \<le> k"
  shows "round64 x \<le> pow2 k"
proof (cases "x = 0")
  case True
  then show ?thesis by (simp add: less_imp_le)
next
  case False
  with assms(1) have pos: "0 < x" by simp
  define e where "e = max (ilog2 x) (- 1022)"
  from ilog2_bounds[OF pos] assms(2) have "pow2 (ilog2 x) \<le> pow2 k" by linarith
  then have "ilog2 x \<le> k" by (rule pow2_le_D)
  with assms(3) have ek: "e \<le> k" by (simp add: e_def)
  define j where "j = nat (k - e + 52)"
  have j: "int j = k - e + 52" using ek by (simp add: j_def)
  have "x / pow2 (e - 52) \<le> pow2 k / pow2 (e - 52)"
    using assms(2) by (simp add: divide_right_mono less_imp_le)
  also have "pow2 k / pow2 (e - 52) = pow2 (int j)"
  proof -
    have h: "pow2 (int j) * pow2 (e - 52) = pow2 k"
      by (simp add: j flip: pow2_add)
    have "pow2 k / pow2 (e - 52) = pow2 (int j) * pow2 (e - 52) / pow2 (e - 52)"
      by (simp only: h)
    also have "\<dots> = pow2 (int j)" by simp
    finally show ?thesis .
  qed
  also have "\<dots> = of_int (2 ^ j)" by (simp add: pow2_nat)
  finally have "round_half_even (x / pow2 (e - 52)) \<le> 2 ^ j"
    by (rule round_half_even_le)
  then have "of_int (round_half_even (x / pow2 (e - 52))) \<le> (of_int (2 ^ j) :: rat)"
    by (simp only: of_int_le_iff)
  then have "of_int (round_half_even (x / pow2 (e - 52))) * pow2 (e - 52)
               \<le> of_int (2 ^ j) * pow2 (e - 52)"
    by (rule mult_right_mono) (simp add: less_imp_le)
  also have "of_int (2 ^ j) * pow2 (e - 52) = pow2 k"
    by (simp add: j flip: pow2_nat pow2_add)
  finally show ?thesis using pos by (simp add: round64_def Let_def e_def)
qed

lemma round64_abs_upper:
  assumes "\<bar>x\<bar> \<le> pow2 k" "- 1022 \<le> k"
  shows "\<bar>round64 x\<bar> \<le> pow2 k"
proof (cases "0 \<le> x")
  case True
  with assms round64_upper[of x k] round64_nonneg[of x] show ?thesis by simp
next
  case False
  with assms round64_upper[of "- x" k] round64_nonneg[of "- x"] show ?thesis
    by (simp add: round64_minus)
qed

lemma binary64_not_NaN [simp]: "binary64 x \<noteq> NaN"
proof (cases "x = 0")
  case True
  then show ?thesis by (simp add: binary64_def Let_def not_le)
next
  case False
  then show ?thesis by (simp add: binary64_def Let_def infinity_def sgn_if)
qed

lemma pow2_1023_less: "pow2 1023 < pow2 1024"
  by (rule pow2_strict_mono) simp

lemma binary64_bounded:
  assumes "\<bar>x\<bar> \<le> pow2 k" "- 1022 \<le> k" "k \<le> 1023"
  shows "binary64 x = Fin (round64 x) \<and> \<bar>round64 x\<bar> \<le> pow2 k"
proof -
  from assms(1,2) have b: "\<bar>round64 x\<bar> \<le> pow2 k" by (rule round64_abs_upper)
  also have "pow2 k \<le> pow2 1023" using assms(3) by (rule pow2_mono)
  finally have "\<bar>round64 x\<bar> < pow2 1024" using pow2_1023_less by linarith
  with b show ?thesis by (simp add: binary64_def Let_def not_le)
qed

lemma binary64_certificate:
  assumes "pow2 e \<le> x" "x < pow2 (e + 1)" "- 1022 \<le> e" "e \<le> 1022"
    and "\<bar>x / pow2 (e - 52) - of_int n\<bar> < 1 / 2"
  shows "binary64 x = Fin (of_int n * pow2 (e - 52))"
proof -
  have pos: "0 < x" using assms(1) pow2_pos[of e] by linarith
  have "\<bar>x\<bar> \<le> pow2 (e + 1)" using pos assms(2) by simp
  then have "binary64 x = Fin (round64 x)"
    using binary64_bounded[of x "e + 1"] assms(3,4) by simp
  with round64_certificate[OF assms(1,2,3,5)] show ?thesis by simp
qed

lemma binary64_minus_certificate:
  assumes "pow2 e \<le> x" "x < pow2 (e + 1)" "- 1022 \<le> e" "e \<le> 1022"
    and "\<bar>x / pow2 (e - 52) - of_int n\<bar> < 1 / 2"
  shows "binary64 (- x) = Fin (- (of_int n * pow2 (e - 52)))"
proof -
  have pos: "0 < x" using assms(1) pow2_pos[of e] by linarith
  have "\<bar>- x\<bar> \<le> pow2 (e + 1)" using pos assms(2) by simp
  then have "binary64 (- x) = Fin (round64 (- x))"
    using binary64_bounded[of "- x" "e + 1"] assms(3,4) by simp
  with round64_certificate[OF assms(1,2,3,5)] show ?thesis by (simp add: round64_minus)
qed

text \<open>A value half way between two neighbours is rounded to the even one.\<close>

lemma round_half_even_tie:
  assumes "m = of_int n + 1 / 2"
  shows "round_half_even m = (if even n then n else n + 1)"
proof -
  have "\<lfloor>m\<rfloor> = n" by (rule floor_unique) (simp_all add: assms)
  then show ?thesis by (simp add: round_half_even_def Let_def assms)
qed

lemma binary64_tie_certificate:
  assumes "pow2 e \<le> x" "x < pow2 (e + 1)" "- 1022 \<le> e" "e \<le> 1022"
    and "x / pow2 (e - 52) = of_int n + 1 / 2"
  shows "binary64 x = Fin (of_int (if even n then n else n + 1) * pow2 (e - 52))"
proof -
  have pos: "0 < x" using assms(1) pow2_pos[of e] by linarith
  have "\<bar>x\<bar> \<le> pow2 (e + 1)" using pos assms(2) by simp
  then have b: "binary64 x = Fin (round64 x)"
    using binary64_bounded[of x "e + 1"] assms(3,4) by simp
  have "ilog2 x = e" using assms(1,2) by (rule ilog2_unique)
  with assms(3) have "max (ilog2 \<bar>x\<bar>) (- 1022) = e" using pos by simp
  with pos have "round64 x = of_int (round_half_even (x / pow2 (e - 52))) * pow2 (e - 52)"
    by (simp add: round64_def Let_def)
  also have "round_half_even (x / pow2 (e - 52)) = (if even n then n else n + 1)"
    using assms(5) by (rule round_half_even_tie)
  finally show ?thesis using b by simp
qed

lemma binary64_0 [simp]: "binary64 0 = Fin 0"
  by (simp add: binary64_def Let_def not_le)

lemma binary64_nonneg:
  assumes "0 \<le> x"
  shows "binary64 x = PInf \<or> (\<exists>y. binary64 x = Fin y \<and> 0 \<le> y)"
proof (cases "x = 0")
  case True
  then show ?thesis by simp
next
  case False
  with assms round64_nonneg[of x] show ?thesis
    by (auto simp: binary64_def Let_def infinity_def sgn_if)
qed

lemma binary64_upper:
  assumes "x \<le> pow2 k" "- 1022 \<le> k" "k \<le> 1023"
  shows "binary64 x = NInf \<or> (\<exists>y. binary64 x = Fin y \<and> y \<le> pow2 k)"
proof (cases "0 \<le> x")
  case True
  with assms have "\<bar>x\<bar> \<le> pow2 k" by simp
  from binary64_bounded[OF this assms(2,3)] show ?thesis by auto
next
  case False
  then have neg: "x < 0" by simp
  then have "round64 x \<le> 0" by (simp add: round64_nonpos)
  also have "0 \<le> pow2 k" by (simp add: less_imp_le)
  finally show ?thesis using neg
    by (auto simp: binary64_def Let_def infinity_def sgn_if)
qed

lemma pow2_numeral:
  "pow2 (numeral k) = 2 ^ numeral k"
  "pow2 (- numeral k) = 1 / 2 ^ numeral k"
  "pow2 0 = 1"
  "pow2 1 = 2"
  "pow2 (- 1) = 1 / 2"
  by (simp_all add: pow2_def power_int_minus field_simps)

lemma num_0 [simp]: "num 0 = Fin 0"
  by (simp add: num_def)

lemma num_not_NaN [simp]: "num x \<noteq> NaN"
  by (simp add: num_def)

lemma js_mul_NaN [simp]: "js_mul x NaN = NaN" "js_mul NaN x = NaN"
  by (cases x; simp)+

lemma js_add_NaN [simp]: "js_add x NaN = NaN" "js_add NaN x = NaN"
  by (cases x; simp)+

lemma js_div_NaN [simp]: "js_div x NaN = NaN" "js_div NaN x = NaN"
  by (cases x; simp)+

lemma Math_min_NaN [simp]: "Math_min x NaN = NaN" "Math_min NaN x = NaN"
  by (cases x; simp)+

lemma Math_max_NaN [simp]: "Math_max x NaN = NaN" "Math_max NaN x = NaN"
  by (cases x; simp)+

lemma js_lt_NaN [simp]: "\<not> js_lt x NaN" "\<not> js_lt NaN x"
  by (cases x; simp)+


section \<open>Properties of the percentile\<close>

lemma findIndex_range:
  "findIndex P xs = - 1 \<or> (0 \<le> findIndex P xs \<and> findIndex P xs < int (length xs))"
  by (induction xs) (auto simp: Let_def)

lemma findIndex_none: "findIndex P xs = - 1 \<longleftrightarrow> (\<forall>x\<in>set xs. \<not> P x)"
proof (induction xs)
  case Nil
  show ?case by simp
next
  case (Cons x xs)
  have "findIndex P xs \<noteq> - 1 \<Longrightarrow> findIndex P xs + 1 \<noteq> - 1"
    using findIndex_range[of P xs] by auto
  with Cons show ?case by (auto simp: Let_def)
qed

lemma findIndex_takeWhile:
  "\<exists>x\<in>set xs. P x \<Longrightarrow> findIndex P xs = int (length (takeWhile (\<lambda>x. \<not> P x) xs))"
proof (induction xs)
  case Nil
  then show ?case by simp
next
  case (Cons a xs)
  show ?case
  proof (cases "P a")
    case True
    then show ?thesis by simp
  next
    case False
    with Cons.prems have ex: "\<exists>x\<in>set xs. P x" by auto
    then have "findIndex P xs \<noteq> - 1" by (simp add: findIndex_none)
    with False Cons.IH[OF ex] show ?thesis by (simp add: Let_def)
  qed
qed

lemma takeWhile_sorted_below:
  "sorted xs \<Longrightarrow> takeWhile (\<lambda>x. x < v) xs = filter (\<lambda>x. x < (v::rat)) xs"
proof (induction xs)
  case Nil
  then show ?case by simp
next
  case (Cons a xs)
  show ?case
  proof (cases "a < v")
    case True
    with Cons show ?thesis by simp
  next
    case False
    with Cons.prems have "\<forall>y\<in>set xs. \<not> y < v" by auto
    then have "filter (\<lambda>x. x < v) xs = []" by (simp add: filter_empty_conv)
    with False show ?thesis by simp
  qed
qed

lemma first_at_least_sort: "first_at_least v (sort d) = samples_below v d"
proof -
  have "takeWhile (\<lambda>x. x < v) (sort d) = filter (\<lambda>x. x < v) (sort d)"
    by (rule takeWhile_sorted_below) simp
  also have "\<dots> = sort (filter (\<lambda>x. x < v) d)"
    by (simp add: filter_sort)
  finally show ?thesis
    by (simp add: first_at_least_def samples_below_def)
qed

lemma first_at_least_is_first:
  assumes "\<not> list_all (\<lambda>x. x < v) xs"
  shows "first_at_least v xs < length xs \<and> v \<le> xs ! first_at_least v xs
         \<and> (\<forall>j < first_at_least v xs. xs ! j < v)"
proof -
  let ?n = "length (takeWhile (\<lambda>x. x < v) xs)"
  from assms have lt: "?n < length xs"
    by (induction xs) auto
  then have "\<not> (xs ! ?n < v)" by (rule nth_length_takeWhile)
  moreover have "\<forall>j < ?n. xs ! j < v"
    using takeWhile_nth nth_mem set_takeWhileD by (metis (mono_tags, lifting))
  ultimately show ?thesis using lt by (simp add: first_at_least_def)
qed

lemma calculatePercentile_index:
  assumes "d \<noteq> []" "\<not> list_all (\<lambda>x. x < v) d"
  shows "fst (calculatePercentile v (Some d)) = percent (first_at_least v (sort d)) (length d)"
proof -
  from assms(2) have ex: "\<exists>x\<in>set (sort d). \<not> x < v" by (auto simp: list_all_iff)
  have "findIndex (\<lambda>x. v \<le> x) (sort d) = findIndex (\<lambda>x. \<not> x < v) (sort d)"
    by (simp add: not_less)
  also from ex have "\<dots> = int (length (takeWhile (\<lambda>x. \<not> \<not> x < v) (sort d)))"
    by (rule findIndex_takeWhile)
  finally have idx: "findIndex (\<lambda>x. v \<le> x) (sort d) = int (first_at_least v (sort d))"
    by (simp add: first_at_least_def)
  with assms(1) show ?thesis
    by (simp add: calculatePercentile_def Let_def percent_def)
qed



text \<open>Roundings that the examples meet, each with the exponent and the significand.\<close>

lemma pct_1: "binary64 1 = Fin 1"
proof -
  have "binary64 1 = Fin (of_int 4503599627370496 * pow2 (0 - 52))"
    by (rule binary64_certificate) (simp_all add: pow2_numeral)
  then show ?thesis by (simp add: pow2_numeral)
qed

lemma pct_2: "binary64 100 = Fin 100"
proof -
  have "binary64 100 = Fin (of_int 7036874417766400 * pow2 (6 - 52))"
    by (rule binary64_certificate) (simp_all add: pow2_numeral)
  then show ?thesis by (simp add: pow2_numeral)
qed

lemma pct_3: "binary64 (1 / 2) = Fin (1 / 2)"
proof -
  have "binary64 (1 / 2) = Fin (of_int 4503599627370496 * pow2 ((- 1) - 52))"
    by (rule binary64_certificate) (simp_all add: pow2_numeral)
  then show ?thesis by (simp add: pow2_numeral)
qed

lemma pct_4: "binary64 50 = Fin 50"
proof -
  have "binary64 50 = Fin (of_int 7036874417766400 * pow2 (5 - 52))"
    by (rule binary64_certificate) (simp_all add: pow2_numeral)
  then show ?thesis by (simp add: pow2_numeral)
qed

lemma pct_5: "binary64 (23 / 40) = Fin (2589569785738035 / 4503599627370496)"
proof -
  have "binary64 (23 / 40) = Fin (of_int 5179139571476070 * pow2 ((- 1) - 52))"
    by (rule binary64_certificate) (simp_all add: pow2_numeral)
  then show ?thesis by (simp add: pow2_numeral)
qed

lemma pct_6: "binary64 (64739244643450875 / 1125899906842624) = Fin (8092405580431359 / 140737488355328)"
proof -
  have "binary64 (64739244643450875 / 1125899906842624) = Fin (of_int 8092405580431359 * pow2 (5 - 52))"
    by (rule binary64_certificate) (simp_all add: pow2_numeral)
  then show ?thesis by (simp add: pow2_numeral)
qed

lemma pct_7: "binary64 (199 / 200) = Fin (8962163258467287 / 9007199254740992)"
proof -
  have "binary64 (199 / 200) = Fin (of_int 8962163258467287 * pow2 ((- 1) - 52))"
    by (rule binary64_certificate) (simp_all add: pow2_numeral)
  then show ?thesis by (simp add: pow2_numeral)
qed

lemma pct_8: "binary64 (224054081461682175 / 2251799813685248) = Fin (199 / 2)"
proof -
  have "binary64 (224054081461682175 / 2251799813685248) = Fin (of_int 7001690045677568 * pow2 (6 - 52))"
    by (rule binary64_certificate) (simp_all add: pow2_numeral)
  then show ?thesis by (simp add: pow2_numeral)
qed

lemmas pct_roundings =
  pct_1 pct_2 pct_3 pct_4 pct_5 pct_6 pct_7 pct_8

lemma round_half_up_numeral:
  "of_int k \<le> x + 1 / 2 \<Longrightarrow> x + 1 / 2 < of_int k + 1 \<Longrightarrow> round_half_up x = k"
  unfolding round_half_up_def by (rule floor_unique)




lemma percent_199_200: "percent 199 200 = Fin 100"
  by (simp add: percent_def pct_roundings round_half_up_numeral[where k = 100])




lemma not_all_40: "\<not> list_all (\<lambda>x. x < 24) (map rat_of_nat [1..<41])"
  by code_simp


lemma samples_200: "samples_below 200 (map rat_of_nat [1..<201]) = 199"
  unfolding samples_below_def by code_simp

lemma d200_ne: "map rat_of_nat [1..<201] \<noteq> []"
  by code_simp

lemma not_all_200: "\<not> list_all (\<lambda>x. x < 200) (map rat_of_nat [1..<201])"
  by code_simp

text \<open>
  Claim C9. A result of 100 does not say that the value exceeds every sample: for the
  200 distinct samples 1, ..., 200 and the value 200, the largest of them, the index is
  199 and 99.5 rounds to 100.
\<close>

theorem C9_percentile_100_at_maximum:
  "fst (calculatePercentile 200 (Some (map rat_of_nat [1..<201]))) = Fin 100
   \<and> length (map rat_of_nat [1..<201]) = 200
   \<and> distinct (map rat_of_nat [1..<201])
   \<and> Max (set (map rat_of_nat [1..<201])) = 200"
proof -
  let ?d = "map rat_of_nat [1..<201]"
  have len: "length ?d = 200" by simp
  have idx: "first_at_least 200 (sort ?d) = 199"
    by (simp only: first_at_least_sort samples_200)
  have "fst (calculatePercentile 200 (Some ?d))
          = percent (first_at_least 200 (sort ?d)) (length ?d)"
    using d200_ne not_all_200 by (rule calculatePercentile_index)
  also have "\<dots> = percent 199 200"
    by (simp only: idx len)
  also have "\<dots> = Fin 100"
    by (rule percent_199_200)
  finally have r: "fst (calculatePercentile 200 (Some ?d)) = Fin 100" .
  have dist: "distinct ?d"
    by (simp add: distinct_map inj_on_def)
  have mx: "Max (set ?d) = 200"
  proof (rule Max_eqI)
    show "finite (set ?d)" by simp
  next
    fix y assume "y \<in> set ?d"
    then obtain n where "y = rat_of_nat n" "n < 201" by auto
    then show "y \<le> 200" by simp
  next
    have "rat_of_nat 200 \<in> rat_of_nat ` {1..<201}" by (rule imageI) simp
    then show "200 \<in> set ?d" by simp
  qed
  from r len dist mx show ?thesis by blast
qed

text \<open>
  Claim C10. A call with a distribution that is not empty leaves the array of the
  caller sorted in ascending order, with the same samples; there are calls after which
  the array differs from what was passed, so the function is not pure in that argument.
\<close>

theorem C10_sorts_in_place:
  "(d \<noteq> [] \<longrightarrow>
      (\<exists>d'. snd (calculatePercentile v (Some d)) = Some d' \<and> sorted d' \<and> mset d' = mset d))
   \<and> (\<exists>v0 d0. snd (calculatePercentile v0 (Some d0)) \<noteq> Some d0)"
proof -
  have "snd (calculatePercentile 0 (Some [2, 1])) \<noteq> Some [2, 1]"
    by (simp add: calculatePercentile_def Let_def)
  then have "\<exists>v0 d0. snd (calculatePercentile v0 (Some d0)) \<noteq> Some d0" by blast
  moreover have "d \<noteq> [] \<Longrightarrow> snd (calculatePercentile v (Some d)) = Some (sort d)"
    by (simp add: calculatePercentile_def Let_def)
  ultimately show ?thesis by simp
qed

theorem C10_sorts_in_place_witness:
  "\<exists>d'. snd (calculatePercentile 2 (Some [3, 1, 2])) = Some d' \<and> sorted d'
          \<and> mset d' = mset [3, 1, 2]"
  using C10_sorts_in_place[of "[3, 1, 2]" 2]
  by simp

section \<open>Properties of the overall score\<close>

text \<open>Roundings that the examples meet.\<close>

lemma score_1: "binary64 (3 / 10) = Fin (5404319552844595 / 18014398509481984)"
proof -
  have "binary64 (3 / 10) = Fin (of_int 5404319552844595 * pow2 ((- 2) - 52))"
    by (rule binary64_certificate) (simp_all add: pow2_numeral)
  then show ?thesis by (simp add: pow2_numeral)
qed

lemma score_2: "binary64 (1 / 2) = Fin (1 / 2)"
proof -
  have "binary64 (1 / 2) = Fin (of_int 4503599627370496 * pow2 ((- 1) - 52))"
    by (rule binary64_certificate) (simp_all add: pow2_numeral)
  then show ?thesis by (simp add: pow2_numeral)
qed

lemma score_3: "binary64 (1 / 5) = Fin (3602879701896397 / 18014398509481984)"
proof -
  have "binary64 (1 / 5) = Fin (of_int 7205759403792794 * pow2 ((- 3) - 52))"
    by (rule binary64_certificate) (simp_all add: pow2_numeral)
  then show ?thesis by (simp add: pow2_numeral)
qed

lemma score_4: "binary64 12543 = Fin 12543"
proof -
  have "binary64 12543 = Fin (of_int 6895587173597184 * pow2 (13 - 52))"
    by (rule binary64_certificate) (simp_all add: pow2_numeral)
  then show ?thesis by (simp add: pow2_numeral)
qed

lemma score_5: "binary64 (16 / 5) = Fin (3602879701896397 / 1125899906842624)"
proof -
  have "binary64 (16 / 5) = Fin (of_int 7205759403792794 * pow2 (1 - 52))"
    by (rule binary64_certificate) (simp_all add: pow2_numeral)
  then show ?thesis by (simp add: pow2_numeral)
qed

lemma score_6: "binary64 (21 / 5) = Fin (4728779608739021 / 1125899906842624)"
proof -
  have "binary64 (21 / 5) = Fin (of_int 4728779608739021 * pow2 (2 - 52))"
    by (rule binary64_certificate) (simp_all add: pow2_numeral)
  then show ?thesis by (simp add: pow2_numeral)
qed

lemma score_7: "binary64 8500 = Fin 8500"
proof -
  have "binary64 8500 = Fin (of_int 4672924418048000 * pow2 (13 - 52))"
    by (rule binary64_certificate) (simp_all add: pow2_numeral)
  then show ?thesis by (simp add: pow2_numeral)
qed

lemma score_8: "binary64 (23 / 10) = Fin (2589569785738035 / 1125899906842624)"
proof -
  have "binary64 (23 / 10) = Fin (of_int 5179139571476070 * pow2 (1 - 52))"
    by (rule binary64_certificate) (simp_all add: pow2_numeral)
  then show ?thesis by (simp add: pow2_numeral)
qed

lemma score_9: "binary64 (26 / 5) = Fin (5854679515581645 / 1125899906842624)"
proof -
  have "binary64 (26 / 5) = Fin (of_int 5854679515581645 * pow2 (2 - 52))"
    by (rule binary64_certificate) (simp_all add: pow2_numeral)
  then show ?thesis by (simp add: pow2_numeral)
qed

lemma score_10: "binary64 (12543 / 8500) = Fin (6645723544248015 / 4503599627370496)"
proof -
  have "binary64 (12543 / 8500) = Fin (of_int 6645723544248015 * pow2 (0 - 52))"
    by (rule binary64_certificate) (simp_all add: pow2_numeral)
  then show ?thesis by (simp add: pow2_numeral)
qed

lemma score_11: "binary64 (166143088606200375 / 1125899906842624) = Fin (2595985759471881 / 17592186044416)"
proof -
  have "binary64 (166143088606200375 / 1125899906842624) = Fin (of_int 5191971518943762 * pow2 (7 - 52))"
    by (rule binary64_certificate) (simp_all add: pow2_numeral)
  then show ?thesis by (simp add: pow2_numeral)
qed

lemma score_12: "binary64 (3602879701896397 / 2589569785738035) = Fin (6265877742428517 / 4503599627370496)"
proof -
  have "binary64 (3602879701896397 / 2589569785738035) = Fin (of_int 6265877742428517 * pow2 (0 - 52))"
    by (rule binary64_certificate) (simp_all add: pow2_numeral)
  then show ?thesis by (simp add: pow2_numeral)
qed

lemma score_13: "binary64 (156646943560712925 / 1125899906842624) = Fin (4895216986272279 / 35184372088832)"
proof -
  have "binary64 (156646943560712925 / 1125899906842624) = Fin (of_int 4895216986272279 * pow2 (7 - 52))"
    by (rule binary64_certificate) (simp_all add: pow2_numeral)
  then show ?thesis by (simp add: pow2_numeral)
qed

lemma score_14: "binary64 (4728779608739021 / 5854679515581645) = Fin (3637522775953093 / 4503599627370496)"
proof -
  have "binary64 (4728779608739021 / 5854679515581645) = Fin (of_int 7275045551906186 * pow2 ((- 1) - 52))"
    by (rule binary64_certificate) (simp_all add: pow2_numeral)
  then show ?thesis by (simp add: pow2_numeral)
qed

lemma score_15: "binary64 (90938069398827325 / 1125899906842624) = Fin (1420907334356677 / 17592186044416)"
proof -
  have "binary64 (90938069398827325 / 1125899906842624) = Fin (of_int 5683629337426708 * pow2 (6 - 52))"
    by (rule binary64_certificate) (simp_all add: pow2_numeral)
  then show ?thesis by (simp add: pow2_numeral)
qed

lemma score_16: "binary64 (135107988821114875 / 4503599627370496) = Fin 30"
proof -
  have "binary64 (135107988821114875 / 4503599627370496) = Fin (of_int 8444249301319680 * pow2 (4 - 52))"
    by (rule binary64_certificate) (simp_all add: pow2_numeral)
  then show ?thesis by (simp add: pow2_numeral)
qed

lemma score_17: "binary64 50 = Fin 50"
proof -
  have "binary64 50 = Fin (of_int 7036874417766400 * pow2 (5 - 52))"
    by (rule binary64_certificate) (simp_all add: pow2_numeral)
  then show ?thesis by (simp add: pow2_numeral)
qed

lemma score_18: "binary64 80 = Fin 80"
proof -
  have "binary64 80 = Fin (of_int 5629499534213120 * pow2 (6 - 52))"
    by (rule binary64_certificate) (simp_all add: pow2_numeral)
  then show ?thesis by (simp add: pow2_numeral)
qed

lemma score_19: "binary64 (5119358193229388528908899192769 / 316912650057057350374175801344) = Fin (4546903469941367 / 281474976710656)"
proof -
  have "binary64 (5119358193229388528908899192769 / 316912650057057350374175801344) = Fin (of_int 4546903469941367 * pow2 (4 - 52))"
    by (rule binary64_certificate) (simp_all add: pow2_numeral)
  then show ?thesis by (simp add: pow2_numeral)
qed

lemma score_20: "binary64 (27064901606793847 / 281474976710656) = Fin (3383112700849231 / 35184372088832)"
proof -
  have "binary64 (27064901606793847 / 281474976710656) = Fin (of_int 6766225401698462 * pow2 (6 - 52))"
    by (rule binary64_certificate) (simp_all add: pow2_numeral)
  then show ?thesis by (simp add: pow2_numeral)
qed

lemma score_21: "binary64 4250 = Fin 4250"
proof -
  have "binary64 4250 = Fin (of_int 4672924418048000 * pow2 (12 - 52))"
    by (rule binary64_certificate) (simp_all add: pow2_numeral)
  then show ?thesis by (simp add: pow2_numeral)
qed

lemma score_22: "binary64 1 = Fin 1"
proof -
  have "binary64 1 = Fin (of_int 4503599627370496 * pow2 (0 - 52))"
    by (rule binary64_certificate) (simp_all add: pow2_numeral)
  then show ?thesis by (simp add: pow2_numeral)
qed

lemma score_23: "binary64 100 = Fin 100"
proof -
  have "binary64 100 = Fin (of_int 7036874417766400 * pow2 (6 - 52))"
    by (rule binary64_certificate) (simp_all add: pow2_numeral)
  then show ?thesis by (simp add: pow2_numeral)
qed

lemma score_24: "binary64 (135107988821114875 / 9007199254740992) = Fin 15"
proof -
  have "binary64 (135107988821114875 / 9007199254740992) = Fin (of_int 8444249301319680 * pow2 (3 - 52))"
    by (rule binary64_certificate) (simp_all add: pow2_numeral)
  then show ?thesis by (simp add: pow2_numeral)
qed

lemma score_25: "binary64 65 = Fin 65"
proof -
  have "binary64 65 = Fin (of_int 4573968371548160 * pow2 (6 - 52))"
    by (rule binary64_certificate) (simp_all add: pow2_numeral)
  then show ?thesis by (simp add: pow2_numeral)
qed

lemma score_26: "binary64 1250 = Fin 1250"
proof -
  have "binary64 1250 = Fin (of_int 5497558138880000 * pow2 (10 - 52))"
    by (rule binary64_certificate) (simp_all add: pow2_numeral)
  then show ?thesis by (simp add: pow2_numeral)
qed

lemma score_27: "binary64 15000 = Fin 15000"
proof -
  have "binary64 15000 = Fin (of_int 8246337208320000 * pow2 (13 - 52))"
    by (rule binary64_certificate) (simp_all add: pow2_numeral)
  then show ?thesis by (simp add: pow2_numeral)
qed

lemma score_28: "binary64 (7 / 2) = Fin (7 / 2)"
proof -
  have "binary64 (7 / 2) = Fin (of_int 7881299347898368 * pow2 (1 - 52))"
    by (rule binary64_certificate) (simp_all add: pow2_numeral)
  then show ?thesis by (simp add: pow2_numeral)
qed

lemma score_29: "binary64 (1 / 12) = Fin (6004799503160661 / 72057594037927936)"
proof -
  have "binary64 (1 / 12) = Fin (of_int 6004799503160661 * pow2 ((- 4) - 52))"
    by (rule binary64_certificate) (simp_all add: pow2_numeral)
  then show ?thesis by (simp add: pow2_numeral)
qed

lemma score_30: "binary64 (150119987579016525 / 18014398509481984) = Fin (2345624805922133 / 281474976710656)"
proof -
  have "binary64 (150119987579016525 / 18014398509481984) = Fin (of_int 4691249611844266 * pow2 (3 - 52))"
    by (rule binary64_certificate) (simp_all add: pow2_numeral)
  then show ?thesis by (simp add: pow2_numeral)
qed

lemma score_31: "binary64 (12676506002282291744402219921135 / 5070602400912917605986812821504) = Fin (5629499534213119 / 2251799813685248)"
proof -
  have "binary64 (12676506002282291744402219921135 / 5070602400912917605986812821504) = Fin (of_int 5629499534213119 * pow2 (1 - 52))"
    by (rule binary64_certificate) (simp_all add: pow2_numeral)
  then show ?thesis by (simp add: pow2_numeral)
qed

lemma score_32: "binary64 (5629499534213119 / 2251799813685248) = Fin (5629499534213119 / 2251799813685248)"
proof -
  have "binary64 (5629499534213119 / 2251799813685248) = Fin (of_int 5629499534213119 * pow2 (1 - 52))"
    by (rule binary64_certificate) (simp_all add: pow2_numeral)
  then show ?thesis by (simp add: pow2_numeral)
qed

lemmas score_roundings =
  score_1 score_2 score_3 score_4 score_5 score_6 score_7 score_8 score_9 score_10
  score_11 score_12 score_13 score_14 score_15 score_16 score_17 score_18 score_19
  score_20 score_21 score_22 score_23 score_24 score_25 score_26 score_27 score_28
  score_29 score_30 score_31 score_32

lemma weights:
  "num (3 / 10) = Fin (5404319552844595 / 18014398509481984)" "num (5 / 10) = Fin (1 / 2)" "num (2 / 10) = Fin (3602879701896397 / 18014398509481984)"
  by (simp_all add: num_def score_roundings)

lemma below_not_NaN: "below B z \<Longrightarrow> z \<noteq> NaN"
  by (cases z) (simp_all add: below_def)

lemma Math_min_below: "y \<noteq> NaN \<Longrightarrow> below 100 (Math_min (Fin 100) y)"
  by (cases y) (simp_all add: below_def)

lemma js_mul_below:
  assumes "below 100 x" "0 < w" "w \<le> 1"
  shows "below (pow2 7) (js_mul x (Fin w))"
proof (cases x)
  case (Fin c)
  with assms(1) have c: "c \<le> 100" by (simp add: below_def)
  have "c * w \<le> 100"
  proof (cases "0 \<le> c")
    case True
    with assms(3) have "c * w \<le> c * 1" by (intro mult_left_mono)
    with c show ?thesis by simp
  next
    case False
    with assms(2) have "c * w \<le> 0" by (simp add: mult_le_0_iff)
    then show ?thesis by simp
  qed
  then have "c * w \<le> pow2 7" by (simp add: pow2_numeral)
  then have "binary64 (c * w) = NInf \<or> (\<exists>y. binary64 (c * w) = Fin y \<and> y \<le> pow2 7)"
    by (rule binary64_upper) simp_all
  with Fin show ?thesis by (auto simp: below_def)
next
  case PInf
  with assms(1) show ?thesis by (simp add: below_def)
next
  case NInf
  with assms(2) show ?thesis by (simp add: below_def infinity_def)
next
  case NaN
  with assms(1) show ?thesis by (simp add: below_def)
qed

lemma js_add_below:
  assumes "below (pow2 k) x" "below (pow2 k) y" "- 1022 \<le> k + 1" "k + 1 \<le> 1023"
  shows "below (pow2 (k + 1)) (js_add x y)"
proof (cases x)
  case fx: (Fin a)
  show ?thesis
  proof (cases y)
    case (Fin c)
    with fx assms(1,2) have "a + c \<le> pow2 k + pow2 k" by (simp add: below_def)
    also have "\<dots> = pow2 (k + 1)" by (simp add: pow2_add pow2_numeral)
    finally have "binary64 (a + c) = NInf
                   \<or> (\<exists>y. binary64 (a + c) = Fin y \<and> y \<le> pow2 (k + 1))"
      using assms(3,4) by (rule binary64_upper)
    with fx Fin show ?thesis by (auto simp: below_def)
  next
    case PInf
    with assms(2) show ?thesis by (simp add: below_def)
  next
    case NInf
    with fx show ?thesis by (simp add: below_def)
  next
    case NaN
    with assms(2) show ?thesis by (simp add: below_def)
  qed
next
  case PInf
  with assms(1) show ?thesis by (simp add: below_def)
next
  case NInf
  with assms(2) show ?thesis by (cases y) (simp_all add: below_def)
next
  case NaN
  with assms(1) show ?thesis by (simp add: below_def)
qed

lemma clamp_range:
  assumes "below B z"
  shows "\<exists>k. Math_min (Fin 100) (Math_max (Fin 0) (Math_round z)) = Fin (of_int k)
              \<and> 0 \<le> k \<and> k \<le> 100"
proof (cases z)
  case (Fin r)
  have "Math_min (Fin 100) (Math_max (Fin 0) (Math_round (Fin r)))
          = Fin (of_int (min 100 (max 0 (round_half_up r))))"
    by simp
  moreover have "0 \<le> min 100 (max 0 (round_half_up r))"
    "min 100 (max 0 (round_half_up r)) \<le> 100"
    by simp_all
  ultimately show ?thesis using Fin by blast
next
  case PInf
  with assms show ?thesis by (simp add: below_def)
next
  case NInf
  have "Fin 0 = Fin (rat_of_int 0) \<and> (0::int) \<le> 0 \<and> (0::int) \<le> 100" by simp
  with NInf show ?thesis by (simp del: of_int_0)
next
  case NaN
  with assms show ?thesis by (simp add: below_def)
qed

text \<open>
  The weighted sum of three ratios none of which is \<open>NaN\<close> is rounded and clamped to a
  whole number from 0 to 100.
\<close>

lemma weighted_range:
  assumes "x \<noteq> NaN" "y \<noteq> NaN" "z \<noteq> NaN"
  shows "\<exists>k. Math_min (Fin 100)
               (Math_max (Fin 0)
                  (Math_round
                     (js_add
                        (js_add (js_mul (Math_min (Fin 100) x) (num (3 / 10)))
                           (js_mul (Math_min (Fin 100) y) (num (5 / 10))))
                        (js_mul (Math_min (Fin 100) z) (num (2 / 10))))))
             = Fin (of_int k) \<and> 0 \<le> k \<and> k \<le> 100"
proof -
  have x: "below (pow2 7) (js_mul (Math_min (Fin 100) x) (num (3 / 10)))"
    unfolding weights using assms(1) by (intro js_mul_below Math_min_below) simp_all
  have y: "below (pow2 7) (js_mul (Math_min (Fin 100) y) (num (5 / 10)))"
    unfolding weights using assms(2) by (intro js_mul_below Math_min_below) simp_all
  have z: "below (pow2 7) (js_mul (Math_min (Fin 100) z) (num (2 / 10)))"
    unfolding weights using assms(3) by (intro js_mul_below Math_min_below) simp_all
  have xy: "below (pow2 (7 + 1))
              (js_add (js_mul (Math_min (Fin 100) x) (num (3 / 10)))
                 (js_mul (Math_min (Fin 100) y) (num (5 / 10))))"
    using x y by (rule js_add_below) simp_all
  have "pow2 7 \<le> pow2 (7 + 1)" by (rule pow2_mono) simp
  with z have z': "below (pow2 (7 + 1)) (js_mul (Math_min (Fin 100) z) (num (2 / 10)))"
    by (cases "js_mul (Math_min (Fin 100) z) (num (2 / 10))") (simp_all add: below_def)
  have "below (pow2 (7 + 1 + 1))
          (js_add
             (js_add (js_mul (Math_min (Fin 100) x) (num (3 / 10)))
                (js_mul (Math_min (Fin 100) y) (num (5 / 10))))
             (js_mul (Math_min (Fin 100) z) (num (2 / 10))))"
    using xy z' by (rule js_add_below) simp_all
  then show ?thesis by (rule clamp_range)
qed

lemma calculateOverallScore_range:
  assumes "calculateOverallScore p b \<noteq> NaN"
  shows "\<exists>k. calculateOverallScore p b = Fin (of_int k) \<and> 0 \<le> k \<and> k \<le> 100"
proof -
  let ?x = "js_mul (js_div (num (of_int (followers p))) (to_number (avg_followers b))) (Fin 100)"
  let ?y = "js_mul (js_div (num (engagement_rate p)) (to_number (avg_engagement b))) (Fin 100)"
  let ?z = "js_mul (js_div (num (or_zero (post_frequency p))) (to_number (avg_post_frequency b)))
              (Fin 100)"
  from assms have "?x \<noteq> NaN" "?y \<noteq> NaN" "?z \<noteq> NaN"
    by (auto simp: calculateOverallScore_def Let_def)
  then show ?thesis
    unfolding calculateOverallScore_def Let_def by (rule weighted_range)
qed

text \<open>
  Against averages that are finite numbers, the score is \<open>NaN\<close> exactly when a metric
  and its average are both zero.
\<close>

lemma ratio_NaN:
  "js_mul (js_div (num x) (Fin a)) (Fin 100) = NaN \<longleftrightarrow> num x = Fin 0 \<and> a = 0"
proof (cases "num x")
  case (Fin f)
  show ?thesis
  proof (cases "a = 0")
    case True
    with Fin show ?thesis by (simp add: infinity_def)
  next
    case False
    have "js_mul (binary64 (f / a)) (Fin 100) \<noteq> NaN"
      by (cases "binary64 (f / a)") (simp_all add: infinity_def)
    with Fin False show ?thesis by simp
  qed
next
  case PInf
  then show ?thesis by (simp add: infinity_def)
next
  case NInf
  then show ?thesis by (simp add: infinity_def)
next
  case NaN
  then show ?thesis by (simp add: num_def)
qed

lemma calculateOverallScore_NaN_iff:
  assumes "to_number (avg_followers b) = Fin af" "to_number (avg_engagement b) = Fin ae"
    and "to_number (avg_post_frequency b) = Fin apf"
  shows "calculateOverallScore p b = NaN \<longleftrightarrow>
           (num (of_int (followers p)) = Fin 0 \<and> af = 0)
           \<or> (num (engagement_rate p) = Fin 0 \<and> ae = 0)
           \<or> (num (or_zero (post_frequency p)) = Fin 0 \<and> apf = 0)"
proof
  assume "calculateOverallScore p b = NaN"
  show "(num (of_int (followers p)) = Fin 0 \<and> af = 0)
           \<or> (num (engagement_rate p) = Fin 0 \<and> ae = 0)
           \<or> (num (or_zero (post_frequency p)) = Fin 0 \<and> apf = 0)"
  proof (rule ccontr)
    assume "\<not> ?thesis"
    then have "js_mul (js_div (num (of_int (followers p))) (Fin af)) (Fin 100) \<noteq> NaN"
      "js_mul (js_div (num (engagement_rate p)) (Fin ae)) (Fin 100) \<noteq> NaN"
      "js_mul (js_div (num (or_zero (post_frequency p))) (Fin apf)) (Fin 100) \<noteq> NaN"
      by (simp_all add: ratio_NaN)
    then have "\<exists>k. calculateOverallScore p b = Fin (of_int k) \<and> 0 \<le> k \<and> k \<le> 100"
      unfolding calculateOverallScore_def Let_def assms by (rule weighted_range)
    with \<open>calculateOverallScore p b = NaN\<close> show False by auto
  qed
next
  assume "(num (of_int (followers p)) = Fin 0 \<and> af = 0)
           \<or> (num (engagement_rate p) = Fin 0 \<and> ae = 0)
           \<or> (num (or_zero (post_frequency p)) = Fin 0 \<and> apf = 0)"
  then have "js_mul (js_div (num (of_int (followers p))) (Fin af)) (Fin 100) = NaN
             \<or> js_mul (js_div (num (engagement_rate p)) (Fin ae)) (Fin 100) = NaN
             \<or> js_mul (js_div (num (or_zero (post_frequency p))) (Fin apf)) (Fin 100) = NaN"
    by (simp add: ratio_NaN)
  then show "calculateOverallScore p b = NaN"
    unfolding calculateOverallScore_def Let_def assms by auto
qed






text \<open>
  The products and the sums are rounded as the language rounds them. With 1250
  followers, no engagement and no posts against the row of \<^verbatim>\<open>fitness\<close>, the weighted
  sum is just below 2.5 and the score is 2.
\<close>

lemma score_rounds_down:
  "calculateOverallScore
     \<lparr>username = ''c'', followers = 1250, engagement_rate = 0,
      post_frequency = Some 0, reel_percentage = Some 0,
      industry = Some ''fitness'', location_city = None, location_state = None,
      location_country = None, last_scraped = 0\<rparr>
     (global_row 15000 (35 / 10) (52 / 10)) = Fin 2"
  by (simp add: calculateOverallScore_def Let_def global_row_def or_zero_def num_def
        score_roundings round_half_up_numeral[where k = 2])

text \<open>
  Claim C3 says that the score is a number in 0..100 for all metrics and averages that
  are finite and not negative, a zero average included. The code divides without a
  guard, and \<open>0 / 0\<close> is \<open>NaN\<close>, which \<^verbatim>\<open>Math.min\<close>, \<^verbatim>\<open>Math.round\<close> and the final
  clamp all hand on. An account without posts has engagement rate 0 and post frequency
  0; when it is the only row of its segment, the recomputed baseline has these two
  averages 0, and the score of the account against it is \<open>NaN\<close>.
\<close>

theorem C3_zero_average_not_a_number:
  "calculateBenchmarks (\<lambda>u. None) 100
          [\<lparr>username = ''newcomer'', followers = 12543, engagement_rate = 0,
          post_frequency = Some 0, reel_percentage = Some 0,
          industry = Some ''fitness'', location_city = Some ''Austin'',
          location_state = None, location_country = None, last_scraped = 100\<rparr>]
          ''fitness'' (Some ''Austin'') None None
     = Inr (Row \<lparr>segment = Some (''fitness'', ''city'', Some ''Austin''),
          avg_followers = AsNumber (Fin 12543), avg_engagement = AsNumber (Fin 0),
          avg_post_frequency = AsNumber (Fin 0),
          avg_reel_percentage = Some (AsNumber (Fin 0)),
          follower_distribution = Some [12543],
          engagement_distribution = Some [0], sample_size = Some 1\<rparr>,
            Some \<lparr>u_industry = ''fitness'', u_location_type = ''city'',
          u_location_value = Some ''Austin'',
          u_avg_followers = toFixed (Fin 12543) 2, u_avg_engagement = toFixed (Fin 0) 2,
          u_avg_post_frequency = toFixed (Fin 0) 2,
          u_avg_reel_percentage = toFixed (Fin 0) 2,
          u_follower_distribution = [12543], u_engagement_distribution = [0],
          u_sample_size = 1\<rparr>)
   \<and> calculateOverallScore
         \<lparr>username = ''newcomer'', followers = 12543, engagement_rate = 0,
          post_frequency = Some 0, reel_percentage = Some 0,
          industry = Some ''fitness'', location_city = Some ''Austin'',
          location_state = None, location_country = None, last_scraped = 100\<rparr>
         \<lparr>segment = Some (''fitness'', ''city'', Some ''Austin''),
          avg_followers = AsNumber (Fin 12543), avg_engagement = AsNumber (Fin 0),
          avg_post_frequency = AsNumber (Fin 0),
          avg_reel_percentage = Some (AsNumber (Fin 0)),
          follower_distribution = Some [12543],
          engagement_distribution = Some [0], sample_size = Some 1\<rparr>
       = NaN"
proof -
  have "calculateOverallScore
         \<lparr>username = ''newcomer'', followers = 12543, engagement_rate = 0,
          post_frequency = Some 0, reel_percentage = Some 0,
          industry = Some ''fitness'', location_city = Some ''Austin'',
          location_state = None, location_country = None, last_scraped = 100\<rparr>
         \<lparr>segment = Some (''fitness'', ''city'', Some ''Austin''),
          avg_followers = AsNumber (Fin 12543), avg_engagement = AsNumber (Fin 0),
          avg_post_frequency = AsNumber (Fin 0),
          avg_reel_percentage = Some (AsNumber (Fin 0)),
          follower_distribution = Some [12543],
          engagement_distribution = Some [0], sample_size = Some 1\<rparr>
       = NaN"
    by (simp add: calculateOverallScore_def Let_def infinity_def or_zero_def num_def score_roundings)
  moreover have "calculateBenchmarks (\<lambda>u. None) 100
          [\<lparr>username = ''newcomer'', followers = 12543, engagement_rate = 0,
          post_frequency = Some 0, reel_percentage = Some 0,
          industry = Some ''fitness'', location_city = Some ''Austin'',
          location_state = None, location_country = None, last_scraped = 100\<rparr>]
          ''fitness'' (Some ''Austin'') None None
     = Inr (Row \<lparr>segment = Some (''fitness'', ''city'', Some ''Austin''),
          avg_followers = AsNumber (Fin 12543), avg_engagement = AsNumber (Fin 0),
          avg_post_frequency = AsNumber (Fin 0),
          avg_reel_percentage = Some (AsNumber (Fin 0)),
          follower_distribution = Some [12543],
          engagement_distribution = Some [0], sample_size = Some 1\<rparr>,
            Some \<lparr>u_industry = ''fitness'', u_location_type = ''city'',
          u_location_value = Some ''Austin'',
          u_avg_followers = toFixed (Fin 12543) 2, u_avg_engagement = toFixed (Fin 0) 2,
          u_avg_post_frequency = toFixed (Fin 0) 2,
          u_avg_reel_percentage = toFixed (Fin 0) 2,
          u_follower_distribution = [12543], u_engagement_distribution = [0],
          u_sample_size = 1\<rparr>)"
    by (simp add: calculateBenchmarks_def Let_def sql_where_def sql_eq_def days_def
          or_zero_def num_def score_roundings)
  ultimately show ?thesis by (rule conjI[rotated])
qed

section \<open>Properties of the baselines\<close>

lemma sql_eq_true: "sql_eq a b = Some True \<longleftrightarrow> a \<noteq> None \<and> a = b"
  by (auto simp: sql_eq_def split: option.splits)

lemma sql_gt_Some: "sql_gt (Some x) (Some y) = Some (x > y)"
  by (simp add: sql_gt_def)

lemma sql_and_true: "sql_and p q = Some True \<longleftrightarrow> p = Some True \<and> q = Some True"
  by (cases "(p, q)" rule: sql_and.cases) auto

lemma sql_or_true: "sql_or p q = Some True \<longleftrightarrow> p = Some True \<or> q = Some True"
  by (cases "(p, q)" rule: sql_or.cases) auto

lemma calculateBenchmarks_rows:
  "sql_where
     (\<lambda>p. sql_and (sql_eq (industry p) (Some industry'))
            (sql_and
               (sql_or (sql_eq (location_city p) locationCity)
                  (sql_or (sql_eq (location_state p) locationState)
                     (sql_eq (location_country p) locationCountry)))
               (Some (last_scraped p > now - days 30))))
     profiles
   = filter (peer now industry' locationCity locationState locationCountry) profiles"
  unfolding sql_where_def
  by (rule filter_cong) (auto simp: sql_and_true sql_or_true sql_eq_true peer_def)

lemma calculateBenchmarks_empty:
  assumes "filter (peer now industry' locationCity locationState locationCountry) profiles = []"
  shows "calculateBenchmarks store now profiles industry' locationCity locationState
           locationCountry
           = Inr (getGlobalBenchmarks industry', None)"
  using assms
  by (simp add: calculateBenchmarks_def calculateBenchmarks_rows)

lemma getBenchmarks_rows:
  "sql_where
     (\<lambda>r. sql_and (sql_eq (Some (cached_industry r)) (Some industry'))
            (sql_and (sql_eq (cached_location_type r) (Some ''city''))
               (sql_and (sql_eq (cached_location_value r) locationCity)
                  (Some (updated_at r > now - hours 24)))))
     benchmarks_table
   = filter (fresh now industry' locationCity) benchmarks_table"
  unfolding sql_where_def
  by (rule filter_cong) (auto simp: sql_and_true sql_eq_true fresh_def)

lemma getBenchmarks_miss:
  assumes "filter (fresh now industry' locationCity) benchmarks_table = []"
  shows "getBenchmarks store now benchmarks_table profiles industry' locationCity
           locationState locationCountry
         = calculateBenchmarks store now profiles industry' locationCity locationState
             locationCountry"
  using assms by (simp add: getBenchmarks_def getBenchmarks_rows)

lemma getBenchmarks_hit:
  assumes "filter (fresh now industry' locationCity) benchmarks_table = r # rs"
  shows "getBenchmarks store now benchmarks_table profiles industry' locationCity
           locationState locationCountry
         = Inr (Row (cached_baseline r), None)"
  using assms by (simp add: getBenchmarks_def getBenchmarks_rows)

lemma getGlobalBenchmarks_default:
  "map_of global_table i = None \<Longrightarrow> i \<notin> set Object_prototype \<Longrightarrow>
     getGlobalBenchmarks i = Row default_row"
  by (simp add: getGlobalBenchmarks_def lookup_def)

lemma getGlobalBenchmarks_own:
  "map_of global_table i = Some r \<Longrightarrow> getGlobalBenchmarks i = Row r"
  by (simp add: getGlobalBenchmarks_def lookup_def)

text \<open>
  A key that the table does not hold but \<^verbatim>\<open>Object.prototype\<close> does is answered with
  the inherited member, not with a row.
\<close>

lemma getGlobalBenchmarks_inherited:
  "getGlobalBenchmarks ''toString'' = Inherited ''toString''"
  by (simp add: getGlobalBenchmarks_def lookup_def global_table_def Object_prototype_def)

lemma global_table_rows:
  "map_of global_table i = Some r \<Longrightarrow>
     segment r = None \<and> sample_size r = None \<and> follower_distribution r = None
     \<and> engagement_distribution r = None"
  by (auto simp: global_table_def default_row_def global_row_def split: if_splits)

lemma getGlobalBenchmarks_Row:
  assumes "getGlobalBenchmarks i = Row r"
  shows "sample_size r = None \<and> follower_distribution r = None
         \<and> engagement_distribution r = None"
proof (cases "map_of global_table i")
  case None
  with assms have "r = default_row"
    by (auto simp: getGlobalBenchmarks_def lookup_def split: if_splits)
  then show ?thesis by (simp add: default_row_def global_row_def)
next
  case (Some r')
  with assms have "r = r'" by (simp add: getGlobalBenchmarks_def lookup_def)
  with global_table_rows[OF Some] show ?thesis by simp
qed

text \<open>The averages of the row \<open>default\<close> are whole numbers, and exact.\<close>

lemma base_1: "binary64 15000 = Fin 15000"
proof -
  have "binary64 15000 = Fin (of_int 8246337208320000 * pow2 (13 - 52))"
    by (rule binary64_certificate) (simp_all add: pow2_numeral)
  then show ?thesis by (simp add: pow2_numeral)
qed

lemma base_2: "binary64 3 = Fin 3"
proof -
  have "binary64 3 = Fin (of_int 6755399441055744 * pow2 (1 - 52))"
    by (rule binary64_certificate) (simp_all add: pow2_numeral)
  then show ?thesis by (simp add: pow2_numeral)
qed

lemma base_3: "binary64 5 = Fin 5"
proof -
  have "binary64 5 = Fin (of_int 5629499534213120 * pow2 (2 - 52))"
    by (rule binary64_certificate) (simp_all add: pow2_numeral)
  then show ?thesis by (simp add: pow2_numeral)
qed

lemmas base_roundings =
  base_1 base_2 base_3

lemma kayaking:
  "map_of global_table ''kayaking'' = None \<and> ''kayaking'' \<notin> set Object_prototype"
  by (simp add: global_table_def Object_prototype_def)

text \<open>
  Claim C4 says that an empty peer corpus yields the fallback row with a sample size
  of 0. The fallback rows carry three averages and nothing else: for the industry
  \<open>kayaking\<close>, with nothing in the cache and nothing in the corpus, the resolved
  baseline is the row \<open>default\<close>, and its sample size is absent, not 0.
\<close>

theorem C4_sample_size_counterexample:
  "getBenchmarks (\<lambda>u. None) 0 [] [] ''kayaking'' None None None
     = Inr (Row default_row, None)
   \<and> sample_size default_row = None
   \<and> sample_size default_row \<noteq> Some 0"
proof -
  have "getBenchmarks (\<lambda>u. None) 0 [] [] ''kayaking'' None None None
          = calculateBenchmarks (\<lambda>u. None) 0 [] ''kayaking'' None None None"
    by (rule getBenchmarks_miss) simp
  also have "\<dots> = Inr (getGlobalBenchmarks ''kayaking'', None)"
    by (rule calculateBenchmarks_empty) simp
  also have "getGlobalBenchmarks ''kayaking'' = Row default_row"
    using kayaking by (simp add: getGlobalBenchmarks_default)
  finally have "getBenchmarks (\<lambda>u. None) 0 [] [] ''kayaking'' None None None
                  = Inr (Row default_row, None)" .
  moreover have "sample_size default_row = None"
    by (simp add: default_row_def global_row_def)
  ultimately show ?thesis by simp
qed

text \<open>
  Claim C4, amended. When the cache has no fresh row for the segment and the peer
  corpus of the segment is empty, the resolved baseline is what
  \<^verbatim>\<open>getGlobalBenchmarks\<close> returns for the industry, and nothing is written: the row of
  the industry when the table has one, and the row \<open>default\<close>, with the averages 15000,
  3.0 and 5.0, for an industry that is neither in the table nor the name of a member
  inherited from \<^verbatim>\<open>Object.prototype\<close>, such as \<open>kayaking\<close>. A returned row has no
  sample size and no distributions.
\<close>

theorem C4_degraded_baseline:
  "(filter (fresh now i c) benchmarks_table = [] \<and> filter (peer now i c s n) profiles = [] \<longrightarrow>
      getBenchmarks store now benchmarks_table profiles i c s n
        = Inr (getGlobalBenchmarks i, None)
      \<and> (\<forall>r. map_of global_table i = Some r \<longrightarrow> getGlobalBenchmarks i = Row r)
      \<and> (map_of global_table i = None \<and> i \<notin> set Object_prototype \<longrightarrow>
           getGlobalBenchmarks i = Row default_row)
      \<and> (\<forall>r. getGlobalBenchmarks i = Row r \<longrightarrow>
           sample_size r = None \<and> follower_distribution r = None
           \<and> engagement_distribution r = None))
   \<and> default_row =
       \<lparr>segment = None, avg_followers = AsNumber (Fin 15000),
        avg_engagement = AsNumber (Fin 3), avg_post_frequency = AsNumber (Fin 5),
        avg_reel_percentage = None, follower_distribution = None,
        engagement_distribution = None, sample_size = None\<rparr>
   \<and> map_of global_table ''kayaking'' = None \<and> ''kayaking'' \<notin> set Object_prototype"
proof -
  have resolved: "getBenchmarks store now benchmarks_table profiles i c s n
                    = Inr (getGlobalBenchmarks i, None)"
    if "filter (fresh now i c) benchmarks_table = []"
      and "filter (peer now i c s n) profiles = []"
    using that by (simp add: getBenchmarks_miss calculateBenchmarks_empty)
  have own: "\<forall>r. map_of global_table i = Some r \<longrightarrow> getGlobalBenchmarks i = Row r"
    by (simp add: getGlobalBenchmarks_own)
  have dflt: "map_of global_table i = None \<and> i \<notin> set Object_prototype \<longrightarrow>
                getGlobalBenchmarks i = Row default_row"
    by (simp add: getGlobalBenchmarks_default)
  have bare: "\<forall>r. getGlobalBenchmarks i = Row r \<longrightarrow>
                sample_size r = None \<and> follower_distribution r = None
                \<and> engagement_distribution r = None"
    using getGlobalBenchmarks_Row by blast
  have row: "default_row =
       \<lparr>segment = None, avg_followers = AsNumber (Fin 15000),
        avg_engagement = AsNumber (Fin 3), avg_post_frequency = AsNumber (Fin 5),
        avg_reel_percentage = None, follower_distribution = None,
        engagement_distribution = None, sample_size = None\<rparr>"
    by (simp add: default_row_def global_row_def num_def base_roundings)
  from resolved own dflt bare row kayaking show ?thesis by blast
qed

theorem C4_degraded_baseline_witness:
  "getBenchmarks (\<lambda>u. None) 0 [] [] ''kayaking'' None (Some ''TX'') None
     = Inr (Row default_row, None)
   \<and> sample_size default_row = None"
  using C4_degraded_baseline[of 0 "''kayaking''" None "[]" "Some ''TX''" None "[]"
      "\<lambda>u. None"]
  by simp

text \<open>
  A fresh row of the cache is returned as it is, whatever the corpus holds: here with
  an empty corpus. Nothing is computed and nothing is written.
\<close>

lemma getBenchmarks_cached:
  "getBenchmarks store 100
     [\<lparr>cached_industry = ''kayaking'', cached_location_type = Some ''city'',
       cached_location_value = Some ''Austin'', updated_at = 90,
       cached_baseline = b\<rparr>]
     [] ''kayaking'' (Some ''Austin'') None None
   = Inr (Row b, None)"
  by (simp add: getBenchmarks_def sql_where_def sql_eq_def hours_def)

text \<open>
  The recomputation writes the row it computed before it returns it: when the database
  refuses the write, the error of the write is the outcome, and no baseline is
  returned.
\<close>

lemma calculateBenchmarks_write_refused:
  assumes "filter (peer now industry' locationCity locationState locationCountry) profiles \<noteq> []"
    and "\<forall>u. store u = Some e"
  shows "calculateBenchmarks store now profiles industry' locationCity locationState
           locationCountry = Inl e"
  using assms by (simp add: calculateBenchmarks_def calculateBenchmarks_rows Let_def)

text \<open>
  The averages are sums and quotients of the language: of the engagement rates 0.1 and
  0.2 the sum is just above 0.3 and the average just above 0.15.
\<close>

lemma avg_1: "binary64 (1 / 10) = Fin (3602879701896397 / 36028797018963968)"
proof -
  have "binary64 (1 / 10) = Fin (of_int 7205759403792794 * pow2 ((- 4) - 52))"
    by (rule binary64_certificate) (simp_all add: pow2_numeral)
  then show ?thesis by (simp add: pow2_numeral)
qed

lemma avg_2: "binary64 (1 / 5) = Fin (3602879701896397 / 18014398509481984)"
proof -
  have "binary64 (1 / 5) = Fin (of_int 7205759403792794 * pow2 ((- 3) - 52))"
    by (rule binary64_certificate) (simp_all add: pow2_numeral)
  then show ?thesis by (simp add: pow2_numeral)
qed

lemma avg_3: "binary64 (3602879701896397 / 36028797018963968) = Fin (3602879701896397 / 36028797018963968)"
proof -
  have "binary64 (3602879701896397 / 36028797018963968) = Fin (of_int 7205759403792794 * pow2 ((- 4) - 52))"
    by (rule binary64_certificate) (simp_all add: pow2_numeral)
  then show ?thesis by (simp add: pow2_numeral)
qed

lemma avg_4: "binary64 (10808639105689191 / 36028797018963968) = Fin (1351079888211149 / 4503599627370496)"
proof -
  have "binary64 (10808639105689191 / 36028797018963968)
          = Fin (of_int (if even (5404319552844595::int) then 5404319552844595 else 5404319552844595 + 1) * pow2 ((- 2) - 52))"
    by (rule binary64_tie_certificate) (simp_all add: pow2_numeral)
  then show ?thesis by (simp add: pow2_numeral)
qed

lemma avg_5: "binary64 2 = Fin 2"
proof -
  have "binary64 2 = Fin (of_int 4503599627370496 * pow2 (1 - 52))"
    by (rule binary64_certificate) (simp_all add: pow2_numeral)
  then show ?thesis by (simp add: pow2_numeral)
qed

lemma avg_6: "binary64 (1351079888211149 / 9007199254740992) = Fin (1351079888211149 / 9007199254740992)"
proof -
  have "binary64 (1351079888211149 / 9007199254740992) = Fin (of_int 5404319552844596 * pow2 ((- 3) - 52))"
    by (rule binary64_certificate) (simp_all add: pow2_numeral)
  then show ?thesis by (simp add: pow2_numeral)
qed

lemmas avg_roundings =
  avg_1 avg_2 avg_3 avg_4 avg_5 avg_6

lemma calculateBenchmarks_rounds:
  "\<exists>r w. calculateBenchmarks (\<lambda>u. None) 100
            [\<lparr>username = ''a'', followers = 100, engagement_rate = 1 / 10,
        post_frequency = None, reel_percentage = None,
        industry = Some ''fitness'', location_city = Some ''Austin'',
        location_state = None, location_country = None, last_scraped = 100\<rparr>,
             \<lparr>username = ''b'', followers = 100, engagement_rate = 2 / 10,
        post_frequency = None, reel_percentage = None,
        industry = Some ''fitness'', location_city = Some ''Austin'',
        location_state = None, location_country = None, last_scraped = 100\<rparr>]
            ''fitness'' (Some ''Austin'') None None = Inr (Row r, w)
         \<and> avg_engagement r = AsNumber (Fin (1351079888211149 / 9007199254740992))
         \<and> (3 / 20 :: rat) < 1351079888211149 / 9007199254740992"
  by (simp add: calculateBenchmarks_def Let_def sql_where_def sql_eq_def days_def
        or_zero_def num_def avg_roundings)

section \<open>Properties of the rankings\<close>

lemma total_condition_true:
  "total_condition column location industry' p = Some True
     \<longleftrightarrow> in_scope column location industry' p"
  by (auto simp: total_condition_def in_scope_def sql_and_true sql_eq_true)

lemma rank_condition_true:
  "rank_condition column location industry' f e p = Some True
     \<longleftrightarrow> in_scope column location industry' p \<and> dominates p f e"
  by (auto simp: rank_condition_def in_scope_def dominates_def sql_and_true sql_or_true
        sql_eq_true sql_gt_Some)

lemma count_total:
  "length (sql_where (total_condition column location industry') profiles)
     = scope_total column location industry' profiles"
  by (simp add: sql_where_def scope_total_def total_condition_true)

lemma count_rank:
  "length (sql_where (rank_condition column location industry' f e) profiles) + 1
     = scope_rank column location industry' f e profiles"
  by (simp add: sql_where_def scope_rank_def rank_condition_true)

lemma parseInt_bigint: "parseInt (bigint driver n) = n"
  by (cases driver) (simp_all add: bigint_def)

lemma parseInt_or_else:
  "parseInt (or_else (bigint driver n) fallback)
     = (if driver = BigintNumber \<and> n = 0 then fallback else n)"
  by (cases driver) (simp_all add: bigint_def or_else_def)

lemma calculateRankings_found:
  assumes "filter (\<lambda>p. username p = u) profiles = row # rest"
  shows "calculateRankings driver profiles u i c s n =
           Inr \<lparr>city =
                  \<lparr>rank = scope_rank location_city c i (followers row) (engagement_rate row)
                            profiles,
                   total' = (if driver = BigintNumber \<and> scope_total location_city c i profiles = 0
                             then 1000 else scope_total location_city c i profiles),
                   name = c\<rparr>,
                state =
                  \<lparr>rank = scope_rank location_state s i (followers row) (engagement_rate row)
                            profiles,
                   total' = (if driver = BigintNumber \<and> scope_total location_state s i profiles = 0
                             then 5000 else scope_total location_state s i profiles),
                   name = s\<rparr>,
                national =
                  \<lparr>rank = scope_rank location_country n i (followers row) (engagement_rate row)
                            profiles,
                   total' = (if driver = BigintNumber \<and> scope_total location_country n i profiles = 0
                             then 50000 else scope_total location_country n i profiles),
                   name = n\<rparr>\<rparr>"
  using assms
  by (simp only: calculateRankings_def Let_def list.case parseInt_bigint parseInt_or_else
        count_total count_rank)

lemma calculateRankings_not_found:
  "filter (\<lambda>p. username p = u) profiles = [] \<Longrightarrow>
     calculateRankings driver profiles u i c s n = Inl (Error ''Profile not found in database'')"
  by (simp add: calculateRankings_def)

text \<open>
  Claim C5. When the subject is in the table, the rank of each scope is 1 plus the
  number of rows that match the industry and the location of the scope and dominate
  the subject: more followers, or as many followers and a higher engagement rate. Two
  subjects with the same followers and the same engagement rate get the same three
  ranks.
\<close>

theorem C5_rank_counts_dominating_members:
  assumes "filter (\<lambda>p. username p = u) profiles = row # rest"
  shows "\<exists>r. calculateRankings driver profiles u i c s n = Inr r
           \<and> rank (city r)
               = 1 + length (filter (\<lambda>p. in_scope location_city c i p
                                        \<and> dominates p (followers row) (engagement_rate row))
                               profiles)
           \<and> rank (state r)
               = 1 + length (filter (\<lambda>p. in_scope location_state s i p
                                        \<and> dominates p (followers row) (engagement_rate row))
                               profiles)
           \<and> rank (national r)
               = 1 + length (filter (\<lambda>p. in_scope location_country n i p
                                        \<and> dominates p (followers row) (engagement_rate row))
                               profiles)
           \<and> (\<forall>u' row' rest'.
                 filter (\<lambda>p. username p = u') profiles = row' # rest'
                 \<and> followers row' = followers row
                 \<and> engagement_rate row' = engagement_rate row \<longrightarrow>
                 (\<exists>r'. calculateRankings driver profiles u' i c s n = Inr r'
                       \<and> rank (city r') = rank (city r)
                       \<and> rank (state r') = rank (state r)
                       \<and> rank (national r') = rank (national r)))"
proof -
  obtain r where r: "calculateRankings driver profiles u i c s n = Inr r"
    and c: "rank (city r)
              = scope_rank location_city c i (followers row) (engagement_rate row) profiles"
    and st: "rank (state r)
              = scope_rank location_state s i (followers row) (engagement_rate row) profiles"
    and na: "rank (national r)
              = scope_rank location_country n i (followers row) (engagement_rate row) profiles"
    using calculateRankings_found[OF assms, of driver i c s n] by simp
  have tie: "\<exists>r'. calculateRankings driver profiles u' i c s n = Inr r'
                \<and> rank (city r') = rank (city r)
                \<and> rank (state r') = rank (state r)
                \<and> rank (national r') = rank (national r)"
    if found: "filter (\<lambda>p. username p = u') profiles = row' # rest'"
      and f: "followers row' = followers row"
      and e: "engagement_rate row' = engagement_rate row"
    for u' row' rest'
    using calculateRankings_found[OF found, of driver i c s n] c st na f e by simp
  from r c st na tie show ?thesis
    unfolding scope_rank_def by blast
qed

theorem C5_rank_counts_dominating_members_witness:
  "\<exists>r r'. calculateRankings BigintText example_corpus ''ann'' ''fitness''
             (Some ''Austin'') (Some ''TX'') (Some ''US'') = Inr r
          \<and> rank (city r) = 2 \<and> rank (state r) = 3 \<and> rank (national r) = 3
          \<and> calculateRankings BigintText example_corpus ''bob'' ''fitness''
               (Some ''Austin'') (Some ''TX'') (Some ''US'') = Inr r'
          \<and> rank (city r') = 2 \<and> rank (state r') = 3 \<and> rank (national r') = 3"
proof -
  let ?ann = "member ''ann'' 100 2 ''fitness'' (Some ''Austin'') (Some ''TX'') (Some ''US'')"
  let ?bob = "member ''bob'' 100 2 ''fitness'' (Some ''Austin'') (Some ''TX'') (Some ''US'')"
  have a: "filter (\<lambda>p. username p = ''ann'') example_corpus = ?ann # []"
    by (simp add: example_corpus_def member_def)
  have b: "filter (\<lambda>p. username p = ''bob'') example_corpus = ?bob # []"
    by (simp add: example_corpus_def member_def)
  from C5_rank_counts_dominating_members[OF a, of BigintText "''fitness''"
      "Some ''Austin''" "Some ''TX''" "Some ''US''"]
  obtain r where r: "calculateRankings BigintText example_corpus ''ann'' ''fitness''
             (Some ''Austin'') (Some ''TX'') (Some ''US'') = Inr r"
    and c: "rank (city r)
               = 1 + length (filter (\<lambda>p. in_scope location_city (Some ''Austin'') ''fitness'' p
                                        \<and> dominates p (followers ?ann) (engagement_rate ?ann))
                               example_corpus)"
    and s: "rank (state r)
               = 1 + length (filter (\<lambda>p. in_scope location_state (Some ''TX'') ''fitness'' p
                                        \<and> dominates p (followers ?ann) (engagement_rate ?ann))
                               example_corpus)"
    and n: "rank (national r)
               = 1 + length (filter (\<lambda>p. in_scope location_country (Some ''US'') ''fitness'' p
                                        \<and> dominates p (followers ?ann) (engagement_rate ?ann))
                               example_corpus)"
    and tie: "\<forall>u' row' rest'.
                 filter (\<lambda>p. username p = u') example_corpus = row' # rest'
                 \<and> followers row' = followers ?ann
                 \<and> engagement_rate row' = engagement_rate ?ann \<longrightarrow>
                 (\<exists>r'. calculateRankings BigintText example_corpus u' ''fitness''
                          (Some ''Austin'') (Some ''TX'') (Some ''US'') = Inr r'
                       \<and> rank (city r') = rank (city r)
                       \<and> rank (state r') = rank (state r)
                       \<and> rank (national r') = rank (national r))"
    by blast
  have c2: "rank (city r) = 2"
    unfolding c by (simp add: example_corpus_def member_def in_scope_def dominates_def)
  have s3: "rank (state r) = 3"
    unfolding s by (simp add: example_corpus_def member_def in_scope_def dominates_def)
  have n3: "rank (national r) = 3"
    unfolding n by (simp add: example_corpus_def member_def in_scope_def dominates_def)
  have "followers ?bob = followers ?ann \<and> engagement_rate ?bob = engagement_rate ?ann"
    by (simp add: member_def)
  with tie b obtain r' where "calculateRankings BigintText example_corpus ''bob'' ''fitness''
               (Some ''Austin'') (Some ''TX'') (Some ''US'') = Inr r'"
     "rank (city r') = rank (city r)" "rank (state r') = rank (state r)"
     "rank (national r') = rank (national r)"
    by blast
  with r c2 s3 n3 show ?thesis by simp
qed

text \<open>
  Claim C6 says that a scope without members reports the fallback total 1000, 5000 or
  50000. The total is \<^verbatim>\<open>parseInt(total || fallback)\<close>. When the store delivers the count
  as decimal text, the text of a zero count is truthy, the fallback is not taken, and
  the total reported is 0: here for the state and the nation of a request that names a
  city only.
\<close>

theorem C6_zero_total_not_replaced:
  "calculateRankings BigintText
     [member ''ann'' 100 2 ''fitness'' (Some ''Austin'') None None]
     ''ann'' ''fitness'' (Some ''Austin'') None None
   = Inr \<lparr>city = \<lparr>rank = 1, total' = 1, name = Some ''Austin''\<rparr>,
          state = \<lparr>rank = 1, total' = 0, name = None\<rparr>,
          national = \<lparr>rank = 1, total' = 0, name = None\<rparr>\<rparr>"
proof -
  let ?ann = "member ''ann'' 100 2 ''fitness'' (Some ''Austin'') None None"
  have "filter (\<lambda>p. username p = ''ann'') [?ann] = ?ann # []"
    by (simp add: member_def)
  then show ?thesis
    by (simp add: calculateRankings_found scope_rank_def scope_total_def in_scope_def
          dominates_def member_def)
qed

text \<open>With counts delivered as numbers the same request gets the fallback totals.\<close>

lemma calculateRankings_number_fallback:
  "calculateRankings BigintNumber
     [member ''ann'' 100 2 ''fitness'' (Some ''Austin'') None None]
     ''ann'' ''fitness'' (Some ''Austin'') None None
   = Inr \<lparr>city = \<lparr>rank = 1, total' = 1, name = Some ''Austin''\<rparr>,
          state = \<lparr>rank = 1, total' = 5000, name = None\<rparr>,
          national = \<lparr>rank = 1, total' = 50000, name = None\<rparr>\<rparr>"
proof -
  let ?ann = "member ''ann'' 100 2 ''fitness'' (Some ''Austin'') None None"
  have "filter (\<lambda>p. username p = ''ann'') [?ann] = ?ann # []"
    by (simp add: member_def)
  then show ?thesis
    by (simp add: calculateRankings_found scope_rank_def scope_total_def in_scope_def
          dominates_def member_def)
qed

section \<open>Properties of the insights\<close>

text \<open>
  The call throws exactly when the rule of the post frequency applies to a baseline
  whose average post frequency is text, and then with the \<^verbatim>\<open>TypeError\<close> of the method
  call; in every other case it returns a list.
\<close>

lemma generateInsights_throws:
  "frequency_low p b \<Longrightarrow> is_text (avg_post_frequency b) \<Longrightarrow>
     generateInsights p b score = Inl (TypeError ''benchmarks.avg_post_frequency.toFixed is not a function'')"
  by (cases "avg_post_frequency b")
     (simp_all add: generateInsights_def Let_def frequency_low_def is_text_def)

lemma generateInsights_returns:
  "\<not> (frequency_low p b \<and> is_text (avg_post_frequency b)) \<Longrightarrow>
     \<exists>xs. generateInsights p b score = Inr xs"
  by (cases "avg_post_frequency b")
     (simp_all add: generateInsights_def Let_def frequency_low_def is_text_def)

lemma generateInsights_throws_iff:
  "(\<exists>e. generateInsights p b score = Inl e)
     \<longleftrightarrow> frequency_low p b \<and> is_text (avg_post_frequency b)"
proof
  assume thrown: "\<exists>e. generateInsights p b score = Inl e"
  show "frequency_low p b \<and> is_text (avg_post_frequency b)"
  proof (rule ccontr)
    assume "\<not> (frequency_low p b \<and> is_text (avg_post_frequency b))"
    then obtain xs where "generateInsights p b score = Inr xs"
      using generateInsights_returns by blast
    with thrown show False by auto
  qed
next
  assume "frequency_low p b \<and> is_text (avg_post_frequency b)"
  then show "\<exists>e. generateInsights p b score = Inl e"
    using generateInsights_throws[of p b score] by auto
qed

text \<open>What a call that returns has pushed: one insight at most for each rule, in the
  order of the rules.\<close>

lemma generateInsights_categories:
  "generateInsights p b score = Inr xs \<Longrightarrow>
   map category xs =
     (if engagement_low p b \<or> engagement_high p b then [Engagement] else [])
     @ (if frequency_low p b then [Frequency] else [])
     @ (if reels_low p then [Content] else [])
     @ (if score_high score \<or> score_low score then [Overall] else [])"
  by (cases "avg_post_frequency b")
     (auto simp: generateInsights_def Let_def engagement_low_def engagement_high_def
        frequency_low_def reels_low_def score_high_def score_low_def
        split: if_splits)

lemma generateInsights_types:
  "generateInsights p b score = Inr xs \<Longrightarrow>
   map type xs =
     (if engagement_low p b then [Warning] else if engagement_high p b then [Success] else [])
     @ (if frequency_low p b then [Warning] else [])
     @ (if reels_low p then [Info] else [])
     @ (if score_high score then [Success] else if score_low score then [Warning] else [])"
  by (cases "avg_post_frequency b")
     (auto simp: generateInsights_def Let_def engagement_low_def engagement_high_def
        frequency_low_def reels_low_def score_high_def score_low_def
        split: if_splits)

lemma engagement_kind:
  "generateInsights p b score = Inr xs \<Longrightarrow>
   (\<exists>x\<in>set xs. category x = Engagement \<and> type x = k)
     \<longleftrightarrow> (k = Warning \<and> engagement_low p b)
          \<or> (k = Success \<and> \<not> engagement_low p b \<and> engagement_high p b)"
  by (cases "avg_post_frequency b")
     (auto simp: generateInsights_def Let_def engagement_low_def engagement_high_def
        frequency_low_def reels_low_def score_high_def score_low_def
        split: if_splits)

text \<open>
  The thresholds of the engagement rule, for a call that returns. The list holds an
  engagement warning exactly when the engagement rate is strictly below the product of
  the average and 0.7, as the language computes it, so a rate equal to that product
  gets no warning; and it holds an engagement success exactly when the rate is strictly
  above the product of the average and 1.3 and the warning does not apply.
\<close>

lemma engagement_thresholds:
  assumes "generateInsights p b score = Inr xs"
  shows "((\<exists>x\<in>set xs. category x = Engagement \<and> type x = Warning)
            \<longleftrightarrow> js_lt (num (engagement_rate p))
                   (js_mul (to_number (avg_engagement b)) (num (7 / 10))))
         \<and> (num (engagement_rate p) = js_mul (to_number (avg_engagement b)) (num (7 / 10)) \<longrightarrow>
              \<not> (\<exists>x\<in>set xs. category x = Engagement \<and> type x = Warning))
         \<and> ((\<exists>x\<in>set xs. category x = Engagement \<and> type x = Success)
              \<longleftrightarrow> js_lt (js_mul (to_number (avg_engagement b)) (num (13 / 10)))
                     (num (engagement_rate p))
                   \<and> \<not> js_lt (num (engagement_rate p))
                         (js_mul (to_number (avg_engagement b)) (num (7 / 10))))"
proof -
  have irrefl: "\<not> js_lt x x" for x by (cases x) simp_all
  have w: "(\<exists>x\<in>set xs. category x = Engagement \<and> type x = Warning)
             \<longleftrightarrow> js_lt (num (engagement_rate p))
                    (js_mul (to_number (avg_engagement b)) (num (7 / 10)))"
    using engagement_kind[OF assms, of Warning] by (simp add: engagement_low_def)
  have s: "(\<exists>x\<in>set xs. category x = Engagement \<and> type x = Success)
              \<longleftrightarrow> js_lt (js_mul (to_number (avg_engagement b)) (num (13 / 10)))
                     (num (engagement_rate p))
                   \<and> \<not> js_lt (num (engagement_rate p))
                         (js_mul (to_number (avg_engagement b)) (num (7 / 10)))"
    using engagement_kind[OF assms, of Success]
    by (auto simp: engagement_low_def engagement_high_def)
  from w irrefl have
    "num (engagement_rate p) = js_mul (to_number (avg_engagement b)) (num (7 / 10)) \<longrightarrow>
       \<not> (\<exists>x\<in>set xs. category x = Engagement \<and> type x = Warning)"
    by simp
  with w s show ?thesis by blast
qed

lemma rule_order:
  assumes "generateInsights p b score = Inr xs"
  shows "map category xs =
     (if engagement_low p b \<or> engagement_high p b then [Engagement] else [])
     @ (if frequency_low p b then [Frequency] else [])
     @ (if reels_low p then [Content] else [])
     @ (if score_high score \<or> score_low score then [Overall] else [])
   \<and> length xs \<le> 4
   \<and> subseq (map category xs) [Engagement, Frequency, Content, Overall]
   \<and> (xs = [] \<longleftrightarrow>
        \<not> engagement_low p b \<and> \<not> engagement_high p b \<and> \<not> frequency_low p b
        \<and> \<not> reels_low p \<and> \<not> score_high score \<and> \<not> score_low score)"
proof -
  let ?cs = "map category xs"
  have cats: "?cs =
     (if engagement_low p b \<or> engagement_high p b then [Engagement] else [])
     @ (if frequency_low p b then [Frequency] else [])
     @ (if reels_low p then [Content] else [])
     @ (if score_high score \<or> score_low score then [Overall] else [])"
    using assms by (rule generateInsights_categories)
  have "length ?cs \<le> 4" unfolding cats by simp
  then have len: "length xs \<le> 4" by simp
  have sub: "subseq ?cs [Engagement, Frequency, Content, Overall]"
    unfolding cats by simp
  have "?cs = [] \<longleftrightarrow>
        \<not> engagement_low p b \<and> \<not> engagement_high p b \<and> \<not> frequency_low p b
        \<and> \<not> reels_low p \<and> \<not> score_high score \<and> \<not> score_low score"
    unfolding cats by simp
  then have emp: "xs = [] \<longleftrightarrow>
        \<not> engagement_low p b \<and> \<not> engagement_high p b \<and> \<not> frequency_low p b
        \<and> \<not> reels_low p \<and> \<not> score_high score \<and> \<not> score_low score"
    by simp
  from cats len sub emp show ?thesis by blast
qed

text \<open>Roundings that the examples meet.\<close>

lemma ins_1: "binary64 (7 / 10) = Fin (3152519739159347 / 4503599627370496)"
proof -
  have "binary64 (7 / 10) = Fin (of_int 6305039478318694 * pow2 ((- 1) - 52))"
    by (rule binary64_certificate) (simp_all add: pow2_numeral)
  then show ?thesis by (simp add: pow2_numeral)
qed

lemma ins_2: "binary64 (13 / 10) = Fin (5854679515581645 / 4503599627370496)"
proof -
  have "binary64 (13 / 10) = Fin (of_int 5854679515581645 * pow2 (0 - 52))"
    by (rule binary64_certificate) (simp_all add: pow2_numeral)
  then show ?thesis by (simp add: pow2_numeral)
qed

lemma ins_3: "binary64 (581 / 100) = Fin (6541478458755645 / 1125899906842624)"
proof -
  have "binary64 (581 / 100) = Fin (of_int 6541478458755645 * pow2 (2 - 52))"
    by (rule binary64_certificate) (simp_all add: pow2_numeral)
  then show ?thesis by (simp add: pow2_numeral)
qed

lemma ins_4: "binary64 (83 / 10) = Fin (2336242306698445 / 281474976710656)"
proof -
  have "binary64 (83 / 10) = Fin (of_int 4672484613396890 * pow2 (3 - 52))"
    by (rule binary64_certificate) (simp_all add: pow2_numeral)
  then show ?thesis by (simp add: pow2_numeral)
qed

lemma ins_5: "binary64 (7365049987326012985951332115415 / 1267650600228229401496703205376) = Fin (3270739229377823 / 562949953421312)"
proof -
  have "binary64 (7365049987326012985951332115415 / 1267650600228229401496703205376) = Fin (of_int 6541478458755646 * pow2 (2 - 52))"
    by (rule binary64_certificate) (simp_all add: pow2_numeral)
  then show ?thesis by (simp add: pow2_numeral)
qed

lemma ins_6: "binary64 (19 / 5) = Fin (4278419646001971 / 1125899906842624)"
proof -
  have "binary64 (19 / 5) = Fin (of_int 8556839292003942 * pow2 (1 - 52))"
    by (rule binary64_certificate) (simp_all add: pow2_numeral)
  then show ?thesis by (simp add: pow2_numeral)
qed

lemma ins_7: "binary64 (25048775860509812658322881422295 / 5070602400912917605986812821504) = Fin (2780972769901281 / 562949953421312)"
proof -
  have "binary64 (25048775860509812658322881422295 / 5070602400912917605986812821504) = Fin (of_int 5561945539802562 * pow2 (2 - 52))"
    by (rule binary64_certificate) (simp_all add: pow2_numeral)
  then show ?thesis by (simp add: pow2_numeral)
qed

lemma ins_8: "binary64 (247 / 50) = Fin (5561945539802563 / 1125899906842624)"
proof -
  have "binary64 (247 / 50) = Fin (of_int 5561945539802563 * pow2 (2 - 52))"
    by (rule binary64_certificate) (simp_all add: pow2_numeral)
  then show ?thesis by (simp add: pow2_numeral)
qed

lemma ins_9: "binary64 (21 / 10) = Fin (4728779608739021 / 2251799813685248)"
proof -
  have "binary64 (21 / 10) = Fin (of_int 4728779608739021 * pow2 (1 - 52))"
    by (rule binary64_certificate) (simp_all add: pow2_numeral)
  then show ?thesis by (simp add: pow2_numeral)
qed

lemma ins_10: "binary64 3 = Fin 3"
proof -
  have "binary64 3 = Fin (of_int 6755399441055744 * pow2 (1 - 52))"
    by (rule binary64_certificate) (simp_all add: pow2_numeral)
  then show ?thesis by (simp add: pow2_numeral)
qed

lemma ins_11: "binary64 (9457559217478041 / 4503599627370496) = Fin (1182194902184755 / 562949953421312)"
proof -
  have "binary64 (9457559217478041 / 4503599627370496)
          = Fin (of_int (if even (4728779608739020::int) then 4728779608739020 else 4728779608739020 + 1) * pow2 (1 - 52))"
    by (rule binary64_tie_certificate) (simp_all add: pow2_numeral)
  then show ?thesis by (simp add: pow2_numeral)
qed

lemma ins_12: "binary64 (17564038546744935 / 4503599627370496) = Fin (2195504818343117 / 562949953421312)"
proof -
  have "binary64 (17564038546744935 / 4503599627370496)
          = Fin (of_int (if even (8782019273372467::int) then 8782019273372467 else 8782019273372467 + 1) * pow2 (1 - 52))"
    by (rule binary64_tie_certificate) (simp_all add: pow2_numeral)
  then show ?thesis by (simp add: pow2_numeral)
qed

lemma ins_13: "binary64 2 = Fin 2"
proof -
  have "binary64 2 = Fin (of_int 4503599627370496 * pow2 (1 - 52))"
    by (rule binary64_certificate) (simp_all add: pow2_numeral)
  then show ?thesis by (simp add: pow2_numeral)
qed

lemma ins_14: "binary64 1 = Fin 1"
proof -
  have "binary64 1 = Fin (of_int 4503599627370496 * pow2 (0 - 52))"
    by (rule binary64_certificate) (simp_all add: pow2_numeral)
  then show ?thesis by (simp add: pow2_numeral)
qed

lemma ins_15: "binary64 5 = Fin 5"
proof -
  have "binary64 5 = Fin (of_int 5629499534213120 * pow2 (2 - 52))"
    by (rule binary64_certificate) (simp_all add: pow2_numeral)
  then show ?thesis by (simp add: pow2_numeral)
qed

lemma ins_16: "binary64 (15762598695796735 / 4503599627370496) = Fin (7 / 2)"
proof -
  have "binary64 (15762598695796735 / 4503599627370496)
          = Fin (of_int (if even (7881299347898367::int) then 7881299347898367 else 7881299347898367 + 1) * pow2 (1 - 52))"
    by (rule binary64_tie_certificate) (simp_all add: pow2_numeral)
  then show ?thesis by (simp add: pow2_numeral)
qed

lemma ins_17: "binary64 (16 / 5) = Fin (3602879701896397 / 1125899906842624)"
proof -
  have "binary64 (16 / 5) = Fin (of_int 7205759403792794 * pow2 (1 - 52))"
    by (rule binary64_certificate) (simp_all add: pow2_numeral)
  then show ?thesis by (simp add: pow2_numeral)
qed

lemma ins_18: "binary64 (7 / 2) = Fin (7 / 2)"
proof -
  have "binary64 (7 / 2) = Fin (of_int 7881299347898368 * pow2 (1 - 52))"
    by (rule binary64_certificate) (simp_all add: pow2_numeral)
  then show ?thesis by (simp add: pow2_numeral)
qed

lemma ins_19: "binary64 (22067638174115429 / 9007199254740992) = Fin (5516909543528857 / 2251799813685248)"
proof -
  have "binary64 (22067638174115429 / 9007199254740992) = Fin (of_int 5516909543528857 * pow2 (1 - 52))"
    by (rule binary64_certificate) (simp_all add: pow2_numeral)
  then show ?thesis by (simp add: pow2_numeral)
qed

lemma ins_20: "binary64 (40982756609071515 / 9007199254740992) = Fin (5122844576133939 / 1125899906842624)"
proof -
  have "binary64 (40982756609071515 / 9007199254740992) = Fin (of_int 5122844576133939 * pow2 (2 - 52))"
    by (rule binary64_certificate) (simp_all add: pow2_numeral)
  then show ?thesis by (simp add: pow2_numeral)
qed

lemma ins_21: "binary64 (26 / 5) = Fin (5854679515581645 / 1125899906842624)"
proof -
  have "binary64 (26 / 5) = Fin (of_int 5854679515581645 * pow2 (2 - 52))"
    by (rule binary64_certificate) (simp_all add: pow2_numeral)
  then show ?thesis by (simp add: pow2_numeral)
qed

lemma ins_22: "binary64 (18456992739323019545360043385815 / 5070602400912917605986812821504) = Fin (4098275660907151 / 1125899906842624)"
proof -
  have "binary64 (18456992739323019545360043385815 / 5070602400912917605986812821504) = Fin (of_int 8196551321814302 * pow2 (1 - 52))"
    by (rule binary64_certificate) (simp_all add: pow2_numeral)
  then show ?thesis by (simp add: pow2_numeral)
qed

lemma ins_23: "binary64 (21 / 5) = Fin (4728779608739021 / 1125899906842624)"
proof -
  have "binary64 (21 / 5) = Fin (of_int 4728779608739021 * pow2 (2 - 52))"
    by (rule binary64_certificate) (simp_all add: pow2_numeral)
  then show ?thesis by (simp add: pow2_numeral)
qed

lemma ins_24: "binary64 15000 = Fin 15000"
proof -
  have "binary64 15000 = Fin (of_int 8246337208320000 * pow2 (13 - 52))"
    by (rule binary64_certificate) (simp_all add: pow2_numeral)
  then show ?thesis by (simp add: pow2_numeral)
qed

lemmas ins_roundings =
  ins_1 ins_2 ins_3 ins_4 ins_5 ins_6 ins_7 ins_8 ins_9 ins_10 ins_11 ins_12 ins_13
  ins_14 ins_15 ins_16 ins_17 ins_18 ins_19 ins_20 ins_21 ins_22 ins_23 ins_24

text \<open>
  Against a baseline of numbers, as the recomputation and the fallback table build it,
  every call returns. With all four rules applying the list has the four categories in
  the order of the rules, and with none applying it is empty.
\<close>

lemma generateInsights_all_rules:
  "\<exists>xs. generateInsights (member ''ann'' 100 2 ''fitness'' None None None)
          (global_row 15000 3 5) (Fin 96) = Inr xs
        \<and> map category xs = [Engagement, Frequency, Content, Overall]
        \<and> map type xs = [Warning, Warning, Info, Success]"
  by (simp add: generateInsights_def Let_def member_def global_row_def or_zero_def
        js_ge_def num_def ins_roundings)

lemma generateInsights_no_rule:
  "generateInsights
     \<lparr>username = ''acme'', followers = 12543, engagement_rate = 32 / 10,
        post_frequency = Some (42 / 10), reel_percentage = Some 35,
        industry = Some ''fitness'', location_city = None, location_state = None,
        location_country = None, last_scraped = 0\<rparr>
     (global_row 15000 3 5) (Fin 70) = Inr []"
  by (simp add: generateInsights_def Let_def global_row_def or_zero_def
        js_ge_def num_def ins_roundings)

text \<open>
  The products are rounded. The product of 8.3 and 0.7 is just above 5.81, so the rate
  5.81 is warned about; the product of 3.8 and 1.3 is just below 4.94, so the rate 4.94
  is praised; and the product of 3 and 0.7 is just below 2.1, so the rate 2.1 is not
  warned about.
\<close>

lemma threshold_low_rounded:
  "engagement_low
     \<lparr>username = ''edge'', followers = 100, engagement_rate = 581 / 100,
        post_frequency = Some 9, reel_percentage = Some 35,
        industry = Some ''fitness'', location_city = None, location_state = None,
        location_country = None, last_scraped = 0\<rparr>
     (global_row 15000 (83 / 10) 5)
   \<and> (581 / 100 :: rat) = 83 / 10 * (7 / 10)"
  by (simp add: engagement_low_def global_row_def num_def ins_roundings)

lemma threshold_high_rounded:
  "engagement_high
     \<lparr>username = ''edge'', followers = 100, engagement_rate = 494 / 100,
        post_frequency = Some 9, reel_percentage = Some 35,
        industry = Some ''fitness'', location_city = None, location_state = None,
        location_country = None, last_scraped = 0\<rparr>
     (global_row 15000 (38 / 10) 5)
   \<and> (494 / 100 :: rat) = 38 / 10 * (13 / 10)"
  by (simp add: engagement_high_def global_row_def num_def ins_roundings)

lemma threshold_not_low:
  "\<not> engagement_low (member ''bob'' 100 (21 / 10) ''fitness'' None None None)
       (global_row 15000 3 5)"
  by (simp add: engagement_low_def member_def global_row_def num_def ins_roundings)

text \<open>
  Claim C7 says that an engagement rate strictly below 0.7 times the average of the
  baseline produces an engagement warning. A baseline read from the table
  \<^verbatim>\<open>benchmarks\<close> holds its averages as the text of \<^verbatim>\<open>DECIMAL\<close> columns. For the account
  below, with the engagement rate 2 against the average 3.00 and one post a week
  against the average 5.00, the engagement rule pushes its warning, the rule of the post
  frequency applies as well, and its message calls \<^verbatim>\<open>toFixed\<close> on the text: the call
  throws, and no warning is produced. Against the same averages as numbers the call
  returns the list with the engagement warning first.
\<close>

theorem C7_engagement_warning_lost:
  "engagement_low
     \<lparr>username = ''ann'', followers = 100, engagement_rate = 2,
        post_frequency = Some 1, reel_percentage = Some 10,
        industry = Some ''fitness'', location_city = Some ''Austin'', location_state = None,
        location_country = None, last_scraped = 0\<rparr>
     \<lparr>segment = Some (''fitness'', ''city'', Some ''Austin''),
        avg_followers = AsText 15000, avg_engagement = AsText 3,
        avg_post_frequency = AsText 5, avg_reel_percentage = Some (AsText 40),
        follower_distribution = Some [100, 200], engagement_distribution = Some [2, 4],
        sample_size = Some 2\<rparr>
   \<and> generateInsights
       \<lparr>username = ''ann'', followers = 100, engagement_rate = 2,
        post_frequency = Some 1, reel_percentage = Some 10,
        industry = Some ''fitness'', location_city = Some ''Austin'', location_state = None,
        location_country = None, last_scraped = 0\<rparr>
       \<lparr>segment = Some (''fitness'', ''city'', Some ''Austin''),
        avg_followers = AsText 15000, avg_engagement = AsText 3,
        avg_post_frequency = AsText 5, avg_reel_percentage = Some (AsText 40),
        follower_distribution = Some [100, 200], engagement_distribution = Some [2, 4],
        sample_size = Some 2\<rparr>
       (Fin 32)
     = Inl (TypeError ''benchmarks.avg_post_frequency.toFixed is not a function'')
   \<and> (\<exists>xs. generateInsights
         \<lparr>username = ''ann'', followers = 100, engagement_rate = 2,
        post_frequency = Some 1, reel_percentage = Some 10,
        industry = Some ''fitness'', location_city = Some ''Austin'', location_state = None,
        location_country = None, last_scraped = 0\<rparr>
         \<lparr>segment = Some (''fitness'', ''city'', Some ''Austin''),
        avg_followers = AsNumber (Fin 15000), avg_engagement = AsNumber (Fin 3),
        avg_post_frequency = AsNumber (Fin 5), avg_reel_percentage = Some (AsNumber (Fin 40)),
        follower_distribution = Some [100, 200], engagement_distribution = Some [2, 4],
        sample_size = Some 2\<rparr>
         (Fin 32) = Inr xs
        \<and> map category xs = [Engagement, Frequency, Content, Overall]
        \<and> map type xs = [Warning, Warning, Info, Warning])"
  by (simp add: generateInsights_def Let_def engagement_low_def or_zero_def js_ge_def
        num_def ins_roundings)

text \<open>
  Claim C8 says that for every profile, baseline and score the rules are evaluated in
  their order and a list of at most four insights is returned. The baseline of a
  segment with a fresh row in the cache is that row, with its averages as text; for
  an account that posts twice a week against the average 5.20 the rule of the post
  frequency applies, the call throws at \<^verbatim>\<open>toFixed\<close> for every score, the rules of the
  content and of the overall score are never evaluated, and no list is returned.
\<close>

theorem C8_no_list_on_cached_baseline:
  "getBenchmarks store 100
     [\<lparr>cached_industry = ''fitness'', cached_location_type = Some ''city'',
       cached_location_value = Some ''Austin'', updated_at = 90,
       cached_baseline =
         \<lparr>segment = Some (''fitness'', ''city'', Some ''Austin''),
        avg_followers = AsText 15000, avg_engagement = AsText (35 / 10),
        avg_post_frequency = AsText (52 / 10), avg_reel_percentage = Some (AsText 40),
        follower_distribution = Some [9000, 21000], engagement_distribution = Some [3, 4],
        sample_size = Some 2\<rparr>\<rparr>]
     profiles ''fitness'' (Some ''Austin'') None None
     = Inr (Row \<lparr>segment = Some (''fitness'', ''city'', Some ''Austin''),
        avg_followers = AsText 15000, avg_engagement = AsText (35 / 10),
        avg_post_frequency = AsText (52 / 10), avg_reel_percentage = Some (AsText 40),
        follower_distribution = Some [9000, 21000], engagement_distribution = Some [3, 4],
        sample_size = Some 2\<rparr>, None)
   \<and> frequency_low
       \<lparr>username = ''bea'', followers = 12543, engagement_rate = 32 / 10,
        post_frequency = Some 2, reel_percentage = Some 35,
        industry = Some ''fitness'', location_city = Some ''Austin'', location_state = None,
        location_country = None, last_scraped = 0\<rparr>
       \<lparr>segment = Some (''fitness'', ''city'', Some ''Austin''),
        avg_followers = AsText 15000, avg_engagement = AsText (35 / 10),
        avg_post_frequency = AsText (52 / 10), avg_reel_percentage = Some (AsText 40),
        follower_distribution = Some [9000, 21000], engagement_distribution = Some [3, 4],
        sample_size = Some 2\<rparr>
   \<and> generateInsights
       \<lparr>username = ''bea'', followers = 12543, engagement_rate = 32 / 10,
        post_frequency = Some 2, reel_percentage = Some 35,
        industry = Some ''fitness'', location_city = Some ''Austin'', location_state = None,
        location_country = None, last_scraped = 0\<rparr>
       \<lparr>segment = Some (''fitness'', ''city'', Some ''Austin''),
        avg_followers = AsText 15000, avg_engagement = AsText (35 / 10),
        avg_post_frequency = AsText (52 / 10), avg_reel_percentage = Some (AsText 40),
        follower_distribution = Some [9000, 21000], engagement_distribution = Some [3, 4],
        sample_size = Some 2\<rparr>
       score
     = Inl (TypeError ''benchmarks.avg_post_frequency.toFixed is not a function'')"
proof -
  have "getBenchmarks store 100
     [\<lparr>cached_industry = ''fitness'', cached_location_type = Some ''city'',
       cached_location_value = Some ''Austin'', updated_at = 90,
       cached_baseline =
         \<lparr>segment = Some (''fitness'', ''city'', Some ''Austin''),
        avg_followers = AsText 15000, avg_engagement = AsText (35 / 10),
        avg_post_frequency = AsText (52 / 10), avg_reel_percentage = Some (AsText 40),
        follower_distribution = Some [9000, 21000], engagement_distribution = Some [3, 4],
        sample_size = Some 2\<rparr>\<rparr>]
     profiles ''fitness'' (Some ''Austin'') None None
     = Inr (Row \<lparr>segment = Some (''fitness'', ''city'', Some ''Austin''),
        avg_followers = AsText 15000, avg_engagement = AsText (35 / 10),
        avg_post_frequency = AsText (52 / 10), avg_reel_percentage = Some (AsText 40),
        follower_distribution = Some [9000, 21000], engagement_distribution = Some [3, 4],
        sample_size = Some 2\<rparr>, None)"
    by (simp add: getBenchmarks_def sql_where_def sql_eq_def hours_def)
  moreover have low: "frequency_low
       \<lparr>username = ''bea'', followers = 12543, engagement_rate = 32 / 10,
        post_frequency = Some 2, reel_percentage = Some 35,
        industry = Some ''fitness'', location_city = Some ''Austin'', location_state = None,
        location_country = None, last_scraped = 0\<rparr>
       \<lparr>segment = Some (''fitness'', ''city'', Some ''Austin''),
        avg_followers = AsText 15000, avg_engagement = AsText (35 / 10),
        avg_post_frequency = AsText (52 / 10), avg_reel_percentage = Some (AsText 40),
        follower_distribution = Some [9000, 21000], engagement_distribution = Some [3, 4],
        sample_size = Some 2\<rparr>"
    by (simp add: frequency_low_def or_zero_def num_def ins_roundings)
  moreover from low have "generateInsights
       \<lparr>username = ''bea'', followers = 12543, engagement_rate = 32 / 10,
        post_frequency = Some 2, reel_percentage = Some 35,
        industry = Some ''fitness'', location_city = Some ''Austin'', location_state = None,
        location_country = None, last_scraped = 0\<rparr>
       \<lparr>segment = Some (''fitness'', ''city'', Some ''Austin''),
        avg_followers = AsText 15000, avg_engagement = AsText (35 / 10),
        avg_post_frequency = AsText (52 / 10), avg_reel_percentage = Some (AsText 40),
        follower_distribution = Some [9000, 21000], engagement_distribution = Some [3, 4],
        sample_size = Some 2\<rparr>
       score
     = Inl (TypeError ''benchmarks.avg_post_frequency.toFixed is not a function'')"
    by (rule generateInsights_throws) (simp add: is_text_def)
  ultimately show ?thesis by blast
qed

end
